theory Spec2Isabelle
  imports Complex_Main "HOL-Library.Word" "HOL-Library.Log_Nat"
begin

section \<open>MotionCam image processor\<close>

text \<open>
  The definitions below embed functions of
  \<^verbatim>\<open>libMotionCam/libMotionCam/source/ImageProcessor.cpp\<close>: the exposure value, the
  estimators of shadows and denoise weights, the temporal fusion of a burst, the image
  registration, the preparation of the HDR layer and the control flow of
  \<^verbatim>\<open>ImageProcessor::process\<close>. The generated Halide kernels and the routines of OpenCV
  and of the DNG library are opaque: they are parameters of the definitions.

  Numbers: the C++ computes in \<^verbatim>\<open>float\<close> and \<^verbatim>\<open>double\<close>. With one exception the
  embedding reads every floating-point quantity as a real number, every decimal literal
  as the decimal it writes, and every floating-point operation as the exact operation on
  reals (no rounding, no infinities, no NaN). Comparisons, branches, loops, integer
  conversions and exceptions are kept as the source has them. \<^verbatim>\<open>std::log\<close> is \<open>ln\<close>,
  \<^verbatim>\<open>std::log2\<close> is \<open>log 2\<close>, \<^verbatim>\<open>std::log10\<close> is \<open>log 10\<close>, \<^verbatim>\<open>pow(b, x)\<close> with a
  positive base is \<open>b powr x\<close>, and a conversion \<^verbatim>\<open>(int) x\<close> of a non-negative value
  is \<open>\<lfloor>x\<rfloor>\<close>.

  The exception is the normalisation of the fused burst in \<^verbatim>\<open>ImageProcessor::denoise\<close>:
  it ends in a conversion to a 16-bit integer, and the integer that comes out depends on
  the rounding of the \<^verbatim>\<open>float\<close> operations before it. There every operation is rounded
  to single precision.
\<close>

subsection \<open>Metadata\<close>

text \<open>
  The fields of \<^verbatim>\<open>RawCameraMetadata\<close> and \<^verbatim>\<open>RawImageMetadata\<close> that the functions
  below read. The exposure time is in nanoseconds.
\<close>

record RawCameraMetadata =
  apertures :: "real list"

record RawImageMetadata =
  exposureTime :: int
  iso :: int
  asShot :: "real \<times> real \<times> real"

subsection \<open>\<^verbatim>\<open>ImageProcessor::calcEv\<close>\<close>

definition calcEv :: "RawCameraMetadata \<Rightarrow> RawImageMetadata \<Rightarrow> real" where
  "calcEv cameraMetadata metadata =
     (let a = (if apertures cameraMetadata \<noteq> [] then apertures cameraMetadata ! 0 else 1.8);
          s = a * a
      in log 2 (s / (real_of_int (exposureTime metadata) / 1000000000))
         - log 2 (real_of_int (iso metadata) / 100))"

subsection \<open>\<^verbatim>\<open>ImageProcessor::getShadowKeyValue\<close> and \<^verbatim>\<open>ImageProcessor::estimateShadows\<close>\<close>

definition SHADOW_BIAS :: real where
  "SHADOW_BIAS = 6"

definition getShadowKeyValue :: "real \<Rightarrow> bool \<Rightarrow> real" where
  "getShadowKeyValue ev nightMode =
     (let minKv = 1.03
      in minKv - SHADOW_BIAS / (SHADOW_BIAS + log 10 (10 powr ev + 1)))"

text \<open>
  The histogram is a one-row \<^verbatim>\<open>cv::Mat\<close> of floats; \<open>length histogram\<close> is
  \<^verbatim>\<open>histogram.cols\<close>. The loop over \<^verbatim>\<open>i = lowerBound .. upperBound - 1\<close> updates the two
  accumulators \<^verbatim>\<open>avgLuminance\<close> and \<^verbatim>\<open>totalPixels\<close>.
\<close>

definition estimateShadows_step :: "real list \<Rightarrow> nat \<Rightarrow> real \<times> real \<Rightarrow> real \<times> real" where
  "estimateShadows_step histogram i acc =
     (case acc of (avgLuminance, totalPixels) \<Rightarrow>
        (avgLuminance + histogram ! i * ln (1 / 100000 + real i / real (length histogram)),
         totalPixels + histogram ! i))"

definition estimateShadows :: "real list \<Rightarrow> real \<Rightarrow> real" where
  "estimateShadows histogram keyValue =
     (let ignorePixels = 0.005;
          lowerBound = nat \<lfloor>0.5 + real (length histogram) * ignorePixels\<rfloor>;
          upperBound = length histogram - lowerBound;
          acc = fold (estimateShadows_step histogram) [lowerBound..<upperBound] (0, 0);
          avgLuminance = exp (fst acc / (snd acc + 1 / 100000));
          shadows = 2 powr (keyValue / avgLuminance)
      in max 1 (min shadows 32))"

text \<open>
  The quantity the specification calls the average log luminance: the exponential of the
  histogram-weighted mean of the logarithm of the bin position, over the bins that are
  left after the lowest and highest 0.5 percent of the bins are ignored.
\<close>

definition ignoredBins :: "real list \<Rightarrow> nat" where
  "ignoredBins histogram = nat \<lfloor>0.5 + real (length histogram) * 0.005\<rfloor>"

definition avgLogLuminance :: "real list \<Rightarrow> real" where
  "avgLogLuminance histogram =
     exp ((\<Sum>i = ignoredBins histogram ..< length histogram - ignoredBins histogram.
             histogram ! i * ln (1 / 100000 + real i / real (length histogram)))
          / ((\<Sum>i = ignoredBins histogram ..< length histogram - ignoredBins histogram.
                histogram ! i) + 1 / 100000))"

subsection \<open>\<^verbatim>\<open>WEIGHTS\<close> and \<^verbatim>\<open>ImageProcessor::estimateDenoiseWeights\<close>\<close>

definition WEIGHTS :: "real list list" where
  "WEIGHTS =
     [[12, 4, 2,   1],
      [8,  4, 2,   1],
      [6,  4, 1,   1],
      [4,  2, 1,   0],
      [2,  1, 0.5, 0],
      [1,  1, 0,   0]]"

definition SIGNAL_MAP :: "real list" where
  "SIGNAL_MAP = [0.0001, 0.0025, 0.005, 0.01, 0.03, 0.05]"

text \<open>
  One iteration of the search loop: the state is the pair \<^verbatim>\<open>(minDiff, w)\<close>. The
  unqualified \<^verbatim>\<open>abs\<close> is applied to a \<^verbatim>\<open>float\<close> and is read as the floating-point
  absolute value.
\<close>

definition estimateDenoiseWeights_step :: "real \<Rightarrow> nat \<Rightarrow> real \<times> nat \<Rightarrow> real \<times> nat" where
  "estimateDenoiseWeights_step signalLevel i st =
     (case st of (minDiff, w) \<Rightarrow>
        (let diff = \<bar>signalLevel - SIGNAL_MAP ! i\<bar>
         in if diff < minDiff then (diff, i) else (minDiff, w)))"

definition estimateDenoiseWeights_index :: "real \<Rightarrow> nat" where
  "estimateDenoiseWeights_index signalLevel =
     snd (fold (estimateDenoiseWeights_step signalLevel) [0..<length WEIGHTS]
            (100000, length WEIGHTS - 1))"

definition estimateDenoiseWeights :: "real \<Rightarrow> real list" where
  "estimateDenoiseWeights signalLevel = WEIGHTS ! estimateDenoiseWeights_index signalLevel"

text \<open>
  Row \<open>r\<close> attenuates at least as much as row \<open>r'\<close> when every per-level weight of \<open>r\<close>
  is at least the weight of \<open>r'\<close> at that level.
\<close>

definition attenuatesAtLeast :: "real list \<Rightarrow> real list \<Rightarrow> bool" where
  "attenuatesAtLeast r r' = list_all2 (\<lambda>a b. b \<le> a) r r'"

subsection \<open>Temporal fusion: kernel selection in \<^verbatim>\<open>ImageProcessor::denoise\<close>\<close>

text \<open>
  The three fusion kernels are generated from one generator with the parameter
  \<^verbatim>\<open>window\<close> set to 3, 5 and 7 (the build script of the generators).
\<close>

datatype FuseMethod = fuse_denoise_3x3 | fuse_denoise_5x5 | fuse_denoise_7x7

fun window :: "FuseMethod \<Rightarrow> nat" where
  "window fuse_denoise_3x3 = 3"
| "window fuse_denoise_5x5 = 5"
| "window fuse_denoise_7x7 = 7"

text \<open>
  \<^verbatim>\<open>measureNoise\<close> pushes, for each of the four channels, the median of the channel's
  signal image divided by \<^verbatim>\<open>iso / 100\<close>. The medians (of the output of the opaque
  \<^verbatim>\<open>measure_noise\<close> kernel) are the argument \<open>medians\<close>.
\<close>

definition measureNoise_signal :: "real list \<Rightarrow> RawImageMetadata \<Rightarrow> real list" where
  "measureNoise_signal medians metadata =
     map (\<lambda>median. median / (real_of_int (iso metadata) / 100)) medians"

definition denoise_signalAverage :: "real list \<Rightarrow> real \<Rightarrow> real" where
  "denoise_signalAverage signal whiteLevel =
     (let signalAverage = foldl (+) 0 signal / real (length signal)
      in signalAverage / whiteLevel)"

definition denoise_method :: "real \<Rightarrow> FuseMethod" where
  "denoise_method signalAverage =
     (if signalAverage < 0.02 then fuse_denoise_7x7
      else if signalAverage < 0.04 then fuse_denoise_5x5
      else fuse_denoise_3x3)"

subsection \<open>Single-precision arithmetic\<close>

text \<open>
  A \<^verbatim>\<open>float\<close> is an IEEE 754 binary32 number: 24 significant bits, least exponent
  \<open>- 126\<close>, gradual underflow. A finite \<^verbatim>\<open>float\<close> is read as the real number it denotes,
  and an operation on \<^verbatim>\<open>float\<close>s is the exact operation followed by \<open>f32\<close>, the rounding
  to a nearest binary32 number, ties to the even significand. \<open>f32_exponent x\<close> is the
  integer \<open>e\<close> with \<open>2\<^sup>e \<le> \<bar>x\<bar> < 2\<^sup>e\<^sup>+\<^sup>1\<close>. A result of magnitude \<open>2\<^sup>1\<^sup>2\<^sup>8\<close> or more is
  an infinity in C++; \<open>f32\<close> does not model it, and the theorem about the normalisation
  keeps every operand far below. The operations are evaluated in single precision, with
  no wider intermediate format, as on the processors the application is built for.
\<close>

definition roundTiesToEven :: "real \<Rightarrow> int" where
  "roundTiesToEven t =
     (let f = \<lfloor>t\<rfloor>
      in if t - of_int f < 1/2 then f
         else if 1/2 < t - of_int f then f + 1
         else if even f then f else f + 1)"

definition pow2 :: "int \<Rightarrow> real" where
  "pow2 k = (if 0 \<le> k then 2 ^ nat k else 1 / 2 ^ nat (- k))"

definition f32_exponent :: "real \<Rightarrow> int" where
  "f32_exponent x =
     (if 1 \<le> \<bar>x\<bar> then bitlen \<lfloor>\<bar>x\<bar>\<rfloor> - 1 else - bitlen (\<lceil>1 / \<bar>x\<bar>\<rceil> - 1))"

definition f32 :: "real \<Rightarrow> real" where
  "f32 x =
     (if x = 0 then 0
      else let e = max (f32_exponent x) (- 126);
               ulp = pow2 (e - 23)
           in of_int (roundTiesToEven (x / ulp)) * ulp)"

text \<open>
  The expression \<^verbatim>\<open>a * b + c\<close> on \<^verbatim>\<open>float\<close>s. A C++ compiler may contract it into one
  fused multiply-add, which rounds once; otherwise the product is rounded and then the
  sum. The flag \<open>fused\<close> says which of the two the compiled program does.
\<close>

definition mulAdd :: "bool \<Rightarrow> real \<Rightarrow> real \<Rightarrow> real \<Rightarrow> real" where
  "mulAdd fused a b c = (if fused then f32 (a * b + c) else f32 (f32 (a * b) + c))"

subsection \<open>Temporal fusion: accumulation and normalisation in \<^verbatim>\<open>ImageProcessor::denoise\<close>\<close>

text \<open>
  A three-dimensional Halide buffer is read at \<open>(x, y, c)\<close>. The fusion kernel is an
  opaque generated routine; of its arguments only the reference planes, the current
  frame's planes and the accumulator matter below, and it returns the new accumulator.
\<close>

type_synonym 'a buffer = "nat \<times> nat \<times> nat \<Rightarrow> 'a"

type_synonym fuse_kernel =
  "16 word buffer \<Rightarrow> 16 word buffer \<Rightarrow> real buffer \<Rightarrow> real buffer"

text \<open>
  The fuse loop: \<^verbatim>\<open>fuseOutput\<close> starts filled with 0 and every frame of
  \<^verbatim>\<open>processFrames\<close> is folded into it by the selected kernel.
\<close>

definition denoise_fuse ::
  "fuse_kernel \<Rightarrow> 16 word buffer \<Rightarrow> 16 word buffer list \<Rightarrow> real buffer" where
  "denoise_fuse method reference processFrames =
     fold (\<lambda>current fuseOutput. method reference current fuseOutput) processFrames (\<lambda>_. 0)"

text \<open>\<^verbatim>\<open>static_cast<uint16_t>\<close> of a non-negative float: the integer part, in 16 bits.\<close>

definition toUint16 :: "real \<Rightarrow> 16 word" where
  "toUint16 v = word_of_int \<lfloor>v\<rfloor>"

text \<open>
  The buffer \<^verbatim>\<open>denoiseInput\<close> after the fuse loop (both branches on
  \<^verbatim>\<open>processFrames.size()\<close>), in single precision. The constant \<^verbatim>\<open>EXPANDED_RANGE\<close> and
  the types of \<^verbatim>\<open>whiteLevel\<close> and \<^verbatim>\<open>blackLevel\<close> are declared in headers that are not
  among the sources. \<^verbatim>\<open>EXPANDED_RANGE\<close> is an integer parameter here, converted to
  \<^verbatim>\<open>float\<close> where the source divides it by a \<^verbatim>\<open>float\<close> and where it casts it. The levels
  are read as \<^verbatim>\<open>float\<close> values; for levels that are integers below \<open>2\<^sup>2\<^sup>4\<close> the two
  subtractions are exact, as they are in integer arithmetic. The pixel of the reference
  is a 16-bit integer and its conversion to \<^verbatim>\<open>float\<close> is exact. The line
  \<^verbatim>\<open>float p = fuseOutput(x, y, c) / n - blackLevel[c]\<close> rounds the quotient and then the
  difference; \<^verbatim>\<open>float s = EXPANDED_RANGE / (float) (whiteLevel-blackLevel[c])\<close> rounds the
  difference and then the quotient.
\<close>

definition denoise_denoiseInput ::
  "bool \<Rightarrow> nat \<Rightarrow> fuse_kernel \<Rightarrow> 16 word buffer \<Rightarrow> 16 word buffer list \<Rightarrow> real list
     \<Rightarrow> real \<Rightarrow> 16 word buffer" where
  "denoise_denoiseInput fused EXPANDED_RANGE method reference processFrames blackLevel
       whiteLevel =
     (let fuseOutput = denoise_fuse method reference processFrames
      in if length processFrames \<le> 1 then
           (\<lambda>(x, y, c).
              let p = f32 (real (unat (reference (x, y, c))) - blackLevel ! c);
                  s = f32 (f32 (real EXPANDED_RANGE) / f32 (whiteLevel - blackLevel ! c))
              in toUint16 (max 0 (min (mulAdd fused p s 0.5) (f32 (real EXPANDED_RANGE)))))
         else
           (let n = f32 (real (length processFrames))
            in (\<lambda>(x, y, c).
                  let p = f32 (f32 (fuseOutput (x, y, c) / n) - blackLevel ! c);
                      s = f32 (f32 (real EXPANDED_RANGE) / f32 (whiteLevel - blackLevel ! c))
                  in toUint16
                       (max 0 (min (mulAdd fused p s 0.5) (f32 (real EXPANDED_RANGE)))))))"

text \<open>
  The overload of \<^verbatim>\<open>denoise\<close> that takes the companion frames as a list of buffers
  computes \<^verbatim>\<open>denoiseInput\<close> by the same two branches, selected by
  \<^verbatim>\<open>buffers.empty()\<close>.
\<close>

definition denoise_buffers_denoiseInput ::
  "bool \<Rightarrow> nat \<Rightarrow> fuse_kernel \<Rightarrow> 16 word buffer \<Rightarrow> 16 word buffer list \<Rightarrow> real list
     \<Rightarrow> real \<Rightarrow> 16 word buffer" where
  "denoise_buffers_denoiseInput fused EXPANDED_RANGE method reference buffers blackLevel
       whiteLevel =
     (let fuseOutput = denoise_fuse method reference buffers
      in if buffers = [] then
           (\<lambda>(x, y, c).
              let p = f32 (real (unat (reference (x, y, c))) - blackLevel ! c);
                  s = f32 (f32 (real EXPANDED_RANGE) / f32 (whiteLevel - blackLevel ! c))
              in toUint16 (max 0 (min (mulAdd fused p s 0.5) (f32 (real EXPANDED_RANGE)))))
         else
           (let n = f32 (real (length buffers))
            in (\<lambda>(x, y, c).
                  let p = f32 (f32 (fuseOutput (x, y, c) / n) - blackLevel ! c);
                      s = f32 (f32 (real EXPANDED_RANGE) / f32 (whiteLevel - blackLevel ! c))
                  in toUint16
                       (max 0 (min (mulAdd fused p s 0.5) (f32 (real EXPANDED_RANGE)))))))"

text \<open>
  The normalized value in the specification's words, as a real number: the black level
  subtracted, the result rescaled by \<open>EXPANDED_RANGE / (whiteLevel - blackLevel)\<close> and
  clamped to the interval from 0 to \<open>EXPANDED_RANGE\<close>.
\<close>

definition normalized :: "nat \<Rightarrow> real \<Rightarrow> real \<Rightarrow> real \<Rightarrow> real" where
  "normalized EXPANDED_RANGE v blackLevel whiteLevel =
     max 0 (min ((v - blackLevel) * (real EXPANDED_RANGE / (whiteLevel - blackLevel)))
              (real EXPANDED_RANGE))"

subsection \<open>Exceptions\<close>

text \<open>
  The C++ exception classes that leave the embedded functions: \<^verbatim>\<open>cv::Exception\<close>,
  \<^verbatim>\<open>motioncam::InvalidState\<close> with its message, and the exception class of the DNG
  library.
\<close>

datatype exn = CvException | InvalidState string | DngException

subsection \<open>\<^verbatim>\<open>ImageProcessor::registerImage2\<close>\<close>

type_synonym matrix = "real list list"

text \<open>A \<^verbatim>\<open>cv::Mat\<close> holding a warp: empty (\<^verbatim>\<open>cv::Mat()\<close>) or a matrix of floats.\<close>

datatype cvMat = EmptyMat | Matrix matrix

text \<open>\<^verbatim>\<open>cv::Mat::empty\<close>.\<close>

fun isEmpty :: "cvMat \<Rightarrow> bool" where
  "isEmpty EmptyMat = True"
| "isEmpty (Matrix m) = False"

definition eye3 :: matrix where
  "eye3 = [[1, 0, 0], [0, 1, 0], [0, 0, 1]]"

definition scaleWarpMatrix :: matrix where
  "scaleWarpMatrix = [[1, 1, 2], [1, 1, 2], [0.5, 0.5, 1]]"

text \<open>\<^verbatim>\<open>cv::Mat::mul\<close>: the element-wise product.\<close>

definition mul :: "matrix \<Rightarrow> matrix \<Rightarrow> matrix" where
  "mul a b = map2 (map2 (*)) a b"

text \<open>
  An 8-bit single-channel image (\<^verbatim>\<open>CV_8U\<close>): its size and its pixel at row \<open>y\<close> and
  column \<open>x\<close>.
\<close>

record image8 =
  rows :: nat
  cols :: nat
  pixel :: "nat \<Rightarrow> nat \<Rightarrow> 8 word"

text \<open>
  The loop \<^verbatim>\<open>for(int i = (int) curPyramid.size() - 1; i > 0; i--)\<close>; the counter of the
  recursion is \<open>i\<close>. The solver \<^verbatim>\<open>cv::findTransformECC\<close> is opaque: it returns the
  updated warp or raises. The handler is for \<^verbatim>\<open>cv::Exception\<close>; any other exception
  leaves the function.
\<close>

fun registerImage2_loop ::
  "(image8 \<Rightarrow> image8 \<Rightarrow> matrix \<Rightarrow> exn + matrix) \<Rightarrow> image8 list \<Rightarrow> image8 list \<Rightarrow> nat
     \<Rightarrow> matrix \<Rightarrow> exn + cvMat" where
  "registerImage2_loop findTransformECC curPyramid refPyramid 0 warpMatrix =
     Inr (Matrix warpMatrix)"
| "registerImage2_loop findTransformECC curPyramid refPyramid (Suc i) warpMatrix =
     (case findTransformECC (curPyramid ! Suc i) (refPyramid ! Suc i) warpMatrix of
        Inl CvException \<Rightarrow> Inr EmptyMat
      | Inl e \<Rightarrow> Inl e
      | Inr warpMatrix' \<Rightarrow>
          registerImage2_loop findTransformECC curPyramid refPyramid i
            (mul warpMatrix' scaleWarpMatrix))"

text \<open>
  The warp matrix with which the loop, started at level \<open>i\<close>, calls the solver at a
  level, when it gets there: no earlier level has raised.
\<close>

fun registerImage2_warpAt ::
  "(image8 \<Rightarrow> image8 \<Rightarrow> matrix \<Rightarrow> exn + matrix) \<Rightarrow> image8 list \<Rightarrow> image8 list \<Rightarrow> nat
     \<Rightarrow> matrix \<Rightarrow> nat \<Rightarrow> matrix option" where
  "registerImage2_warpAt findTransformECC curPyramid refPyramid 0 warpMatrix level = None"
| "registerImage2_warpAt findTransformECC curPyramid refPyramid (Suc i) warpMatrix level =
     (if level = Suc i then Some warpMatrix
      else (case findTransformECC (curPyramid ! Suc i) (refPyramid ! Suc i) warpMatrix of
              Inl e \<Rightarrow> None
            | Inr warpMatrix' \<Rightarrow>
                registerImage2_warpAt findTransformECC curPyramid refPyramid i
                  (mul warpMatrix' scaleWarpMatrix) level))"

definition ALIGN_PYRAMID_LEVELS :: nat where
  "ALIGN_PYRAMID_LEVELS = 5"

definition registerImage2 ::
  "(image8 \<Rightarrow> nat \<Rightarrow> image8 list) \<Rightarrow> (image8 \<Rightarrow> image8 \<Rightarrow> matrix \<Rightarrow> exn + matrix)
     \<Rightarrow> image8 \<Rightarrow> image8 \<Rightarrow> exn + cvMat" where
  "registerImage2 buildPyramid findTransformECC referenceImage toAlignImage =
     (let refPyramid = buildPyramid referenceImage ALIGN_PYRAMID_LEVELS;
          curPyramid = buildPyramid toAlignImage ALIGN_PYRAMID_LEVELS
      in registerImage2_loop findTransformECC curPyramid refPyramid
           (length curPyramid - 1) eye3)"

subsection \<open>\<^verbatim>\<open>ImageProcessor::createSrgbMatrix\<close>, \<^verbatim>\<open>createPreview\<close>, \<^verbatim>\<open>calcHistogram\<close>\<close>

text \<open>
  A raw frame: the bytes of its native buffer and its metadata. The fields of
  \<^verbatim>\<open>PostProcessSettings\<close> that the functions below read.
\<close>

record RawImageBuffer =
  data :: "8 word list"
  metadata :: RawImageMetadata

record PostProcessSettings =
  shadows :: real
  blacks :: real
  whitePoint :: real
  temperature :: real
  tint :: real
  captureMode :: string
  dng :: bool

text \<open>
  Modelled from the spec: \<^verbatim>\<open>math::max\<close> on a three-vector is declared in a header
  that is not among the sources; it is read as the largest component.
\<close>

definition vec3_max :: "real \<times> real \<times> real \<Rightarrow> real" where
  "vec3_max v = (case v of (v0, v1, v2) \<Rightarrow> max v0 (max v1 v2))"

text \<open>
  The overload of \<^verbatim>\<open>createSrgbMatrix\<close> that takes the as-shot vector. The matrices come
  from the opaque camera profile; the result kept here is the normalised vector from
  which they are computed.
\<close>

definition createSrgbMatrix_asShot :: "real \<times> real \<times> real \<Rightarrow> exn + real \<times> real \<times> real" where
  "createSrgbMatrix_asShot asShotVector =
     (let mx = vec3_max asShotVector
      in if mx > 0 then
           (case asShotVector of (v0, v1, v2) \<Rightarrow>
              Inr (v0 * (1 / mx), v1 * (1 / mx), v2 * (1 / mx)))
         else Inl (InvalidState ''Camera white balance vector is zero''))"

text \<open>
  The choice between the two overloads, as \<^verbatim>\<open>postProcess\<close>, \<^verbatim>\<open>createPreview\<close> and
  \<^verbatim>\<open>prepareHdr\<close> make it: with a temperature or a tint set, the overload that takes a
  \<^verbatim>\<open>Temperature\<close> (it has no \<^verbatim>\<open>throw\<close>) is called, otherwise the as-shot overload.
\<close>

definition createSrgbMatrix_settings ::
  "PostProcessSettings \<Rightarrow> real \<times> real \<times> real \<Rightarrow> exn + unit" where
  "createSrgbMatrix_settings settings asShotVector =
     (if temperature settings > 0 \<or> tint settings > 0 then Inr ()
      else (case createSrgbMatrix_asShot asShotVector of
              Inl e \<Rightarrow> Inl e
            | Inr _ \<Rightarrow> Inr ()))"

text \<open>
  \<^verbatim>\<open>createPreview\<close> checks the downscale factor, builds the colour matrix and runs the
  opaque preview kernel; the preview image itself is not kept.
\<close>

definition createPreview :: "RawImageBuffer \<Rightarrow> int \<Rightarrow> PostProcessSettings \<Rightarrow> exn + unit" where
  "createPreview rawBuffer downscaleFactor settings =
     (if downscaleFactor \<noteq> 2 \<and> downscaleFactor \<noteq> 4 \<and> downscaleFactor \<noteq> 8
      then Inl (InvalidState ''Invalid downscale factor'')
      else createSrgbMatrix_settings settings (asShot (metadata rawBuffer)))"

text \<open>
  \<^verbatim>\<open>calcHistogram\<close> builds the colour matrix from the as-shot vector before it runs the
  opaque \<^verbatim>\<open>measure_image\<close> kernel; \<open>histogram\<close> is the histogram it returns from the
  output of that kernel.
\<close>

definition calcHistogram :: "RawImageBuffer \<Rightarrow> real list \<Rightarrow> exn + real list" where
  "calcHistogram buffer histogram =
     (case createSrgbMatrix_asShot (asShot (metadata buffer)) of
        Inl e \<Rightarrow> Inl e
      | Inr _ \<Rightarrow> Inr histogram)"

subsection \<open>\<^verbatim>\<open>ImageProcessor::prepareHdr\<close>\<close>

definition MAX_HDR_ERROR :: real where
  "MAX_HDR_ERROR = 0.0001"

text \<open>
  The fields of \<^verbatim>\<open>HdrMetadata\<close> that are numbers; the two image buffers of the layer are
  outputs of opaque kernels.
\<close>

record HdrMetadata =
  exposureScale :: real
  gain :: real
  error :: real

record RawData =
  rawBuffer :: "16 word buffer"
  previewBuffer :: image8

text \<open>
  The opaque routines that \<^verbatim>\<open>prepareHdr\<close> calls: the loader (a frame, the camera
  metadata, the edge-extension flag and the preview scale), OpenCV's pyramid, solver
  and matrix inverse, the black and white levels of the camera metadata for a frame,
  and the \<^verbatim>\<open>hdr_mask\<close> kernel (the two raw quads, the warp, the black levels, the white
  level and the exposure scale), of which the ghost map is kept.
\<close>

record HdrKernels =
  loadRawImage :: "RawImageBuffer \<Rightarrow> RawCameraMetadata \<Rightarrow> bool \<Rightarrow> real \<Rightarrow> RawData"
  buildPyramid :: "image8 \<Rightarrow> nat \<Rightarrow> image8 list"
  findTransformECC :: "image8 \<Rightarrow> image8 \<Rightarrow> matrix \<Rightarrow> exn + matrix"
  mat_inv :: "matrix \<Rightarrow> matrix"
  getBlackLevel :: "RawCameraMetadata \<Rightarrow> RawImageMetadata \<Rightarrow> real list"
  getWhiteLevel :: "RawCameraMetadata \<Rightarrow> RawImageMetadata \<Rightarrow> real"
  hdr_mask ::
    "16 word buffer \<Rightarrow> 16 word buffer \<Rightarrow> matrix \<Rightarrow> real list \<Rightarrow> real \<Rightarrow> real \<Rightarrow> image8"

text \<open>
  \<^verbatim>\<open>ghostMap(cv::Rect(32, 32, ghostMap.cols - 64, ghostMap.rows - 64))\<close> followed by
  \<^verbatim>\<open>cv::mean\<close>. OpenCV asserts that the rectangle has a non-negative size and lies
  inside the image, and raises \<^verbatim>\<open>cv::Exception\<close> otherwise; the mean of an image with
  no pixel is 0.
\<close>

definition trimmedGhostMapSum :: "image8 \<Rightarrow> nat" where
  "trimmedGhostMapSum ghostMap =
     sum_list (map (\<lambda>y. sum_list (map (\<lambda>x. unat (pixel ghostMap y x))
                                      [32..<cols ghostMap - 32]))
                 [32..<rows ghostMap - 32])"

definition trimmedGhostMapMean :: "image8 \<Rightarrow> exn + real" where
  "trimmedGhostMapMean ghostMap =
     (if cols ghostMap < 64 \<or> rows ghostMap < 64 then Inl CvException
      else (let n = (cols ghostMap - 64) * (rows ghostMap - 64)
            in Inr (if n = 0 then 0 else real (trimmedGhostMapSum ghostMap) / real n)))"

text \<open>
  The parts of \<^verbatim>\<open>prepareHdr\<close> in the order of the source: the exposure scale, the
  registration of the two previews, the ghost map of the \<^verbatim>\<open>hdr_mask\<close> kernel for the
  inverted warp, and the function itself. It returns a null pointer (\<open>None\<close>) or the
  layer, or an exception of the routines it calls leaves it.
\<close>

definition prepareHdr_exposureScale ::
  "RawCameraMetadata \<Rightarrow> RawImageBuffer \<Rightarrow> RawImageBuffer \<Rightarrow> real" where
  "prepareHdr_exposureScale cameraMetadata reference underexposed =
     (let a = calcEv cameraMetadata (metadata reference);
          b = calcEv cameraMetadata (metadata underexposed)
      in 2 powr \<bar>b - a\<bar>)"

definition prepareHdr_register ::
  "HdrKernels \<Rightarrow> RawCameraMetadata \<Rightarrow> RawImageBuffer \<Rightarrow> RawImageBuffer \<Rightarrow> exn + cvMat" where
  "prepareHdr_register K cameraMetadata reference underexposed =
     (let extendEdges = True;
          refImage = loadRawImage K reference cameraMetadata extendEdges 1;
          underexposedImage = loadRawImage K underexposed cameraMetadata extendEdges
            (prepareHdr_exposureScale cameraMetadata reference underexposed)
      in registerImage2 (buildPyramid K) (findTransformECC K)
           (previewBuffer refImage) (previewBuffer underexposedImage))"

definition prepareHdr_ghostMap ::
  "HdrKernels \<Rightarrow> RawCameraMetadata \<Rightarrow> RawImageBuffer \<Rightarrow> RawImageBuffer \<Rightarrow> matrix
     \<Rightarrow> image8" where
  "prepareHdr_ghostMap K cameraMetadata reference underexposed warpMatrix =
     (let exposureScale = prepareHdr_exposureScale cameraMetadata reference underexposed;
          whiteLevel = getWhiteLevel K cameraMetadata (metadata underexposed);
          blackLevel = getBlackLevel K cameraMetadata (metadata underexposed);
          extendEdges = True;
          refImage = loadRawImage K reference cameraMetadata extendEdges 1;
          underexposedImage = loadRawImage K underexposed cameraMetadata extendEdges
            exposureScale
      in hdr_mask K (rawBuffer refImage) (rawBuffer underexposedImage)
           (mat_inv K warpMatrix) blackLevel whiteLevel exposureScale)"

definition prepareHdr ::
  "HdrKernels \<Rightarrow> RawCameraMetadata \<Rightarrow> PostProcessSettings \<Rightarrow> RawImageBuffer
     \<Rightarrow> RawImageBuffer \<Rightarrow> exn + HdrMetadata option" where
  "prepareHdr K cameraMetadata settings reference underexposed =
     (case prepareHdr_register K cameraMetadata reference underexposed of
        Inl e \<Rightarrow> Inl e
      | Inr EmptyMat \<Rightarrow> Inr None
      | Inr (Matrix warpMatrix) \<Rightarrow>
          (case trimmedGhostMapMean
                  (prepareHdr_ghostMap K cameraMetadata reference underexposed warpMatrix) of
             Inl e \<Rightarrow> Inl e
           | Inr err \<Rightarrow>
               if err > MAX_HDR_ERROR then Inr None
               else (case createSrgbMatrix_settings settings
                            (asShot (metadata underexposed)) of
                       Inl e \<Rightarrow> Inl e
                     | Inr _ \<Rightarrow>
                         Inr (Some \<lparr>exposureScale =
                                       prepareHdr_exposureScale cameraMetadata reference
                                         underexposed,
                                     gain = 1, error = 0\<rparr>))))"

subsection \<open>\<^verbatim>\<open>ImageProcessor::process\<close>\<close>

text \<open>
  The calls on the progress listener and the files written, in the order in which
  \<^verbatim>\<open>process\<close> makes them.
\<close>

datatype event =
    OnProgressUpdate int
  | OnPreviewSaved
  | OnError string
  | OnCompleted
  | WritePreviewImage
  | WriteDngFile
  | PostProcessImage
  | WriteOutputImage
  | AddExifMetadata

text \<open>
  A frame of the container: its name, the buffer that \<^verbatim>\<open>getFrame\<close> and \<^verbatim>\<open>loadFrame\<close>
  return, and whether \<^verbatim>\<open>loadFrame\<close> returns it (it returns null otherwise).
  \<^verbatim>\<open>getFrames\<close> is read as a snapshot of the frame list.
\<close>

record Frame =
  frameName :: string
  frameBuffer :: RawImageBuffer
  loadFrameOk :: bool

record RawContainer =
  isHdr :: bool
  getFrames :: "Frame list"
  getCameraMetadata :: RawCameraMetadata
  getPostProcessSettings :: PostProcessSettings

definition getMinEv :: "RawContainer \<Rightarrow> real" where
  "getMinEv container =
     fold (\<lambda>frame minEv.
             let ev = calcEv (getCameraMetadata container) (metadata (frameBuffer frame))
             in if ev < minEv then ev else minEv)
          (getFrames container) 100000"

definition removeFrame :: "string \<Rightarrow> RawContainer \<Rightarrow> RawContainer" where
  "removeFrame n container =
     container\<lparr>getFrames := filter (\<lambda>frame. frameName frame \<noteq> n) (getFrames container)\<rparr>"

text \<open>
  The outcome of \<^verbatim>\<open>util::WriteDng\<close> on the output path: the file is written, or the
  call raises \<^verbatim>\<open>std::runtime_error\<close> (or a class derived from it), or it raises the
  exception of the DNG library, through which the library's streams and writer report
  failures and which is not derived from \<^verbatim>\<open>std::runtime_error\<close>.
\<close>

datatype DngResult = DngWritten | DngRuntimeError | DngLibraryError

text \<open>
  The outputs of the opaque routines that \<^verbatim>\<open>process\<close> calls: the histogram of the
  reference, the black and white point estimated from its preview, the routines of
  \<^verbatim>\<open>prepareHdr\<close>, and the outcome of \<^verbatim>\<open>util::WriteDng\<close>.
\<close>

record Kernels =
  measuredHistogram :: "real list"
  estimatedBlackWhitePoint :: "real \<times> real"
  hdrKernels :: HdrKernels
  writeDngResult :: DngResult

text \<open>
  The loop that moves the underexposed frames of a HDR capture out of the container:
  the frames moved and the container left.
\<close>

definition process_underexposed :: "RawContainer \<Rightarrow> Frame list \<times> RawContainer" where
  "process_underexposed rawContainer =
     (if isHdr rawContainer then
        (let refEv = getMinEv rawContainer;
             moved = (\<lambda>frame. calcEv (getCameraMetadata rawContainer)
                                   (metadata (frameBuffer frame)) - refEv > 1
                               \<and> loadFrameOk frame)
         in (filter moved (getFrames rawContainer),
             fold (\<lambda>frame. removeFrame (frameName frame))
               (filter moved (getFrames rawContainer)) rawContainer))
      else ([], rawContainer))"

text \<open>The estimation of the settings that are unset (negative).\<close>

definition process_estimate ::
  "Kernels \<Rightarrow> RawCameraMetadata \<Rightarrow> RawImageBuffer \<Rightarrow> PostProcessSettings
     \<Rightarrow> exn + PostProcessSettings" where
  "process_estimate K cameraMetadata referenceRawBuffer settings =
     (case (if shadows settings < 0 then
              (let ev = calcEv cameraMetadata (metadata referenceRawBuffer);
                   keyValue = getShadowKeyValue ev (captureMode settings = ''NIGHT'')
               in case calcHistogram referenceRawBuffer (measuredHistogram K) of
                    Inl e \<Rightarrow> Inl e
                  | Inr histogram \<Rightarrow>
                      Inr (settings\<lparr>shadows := estimateShadows histogram keyValue\<rparr>))
            else Inr settings) of
        Inl e \<Rightarrow> Inl e
      | Inr settings1 \<Rightarrow>
          if blacks settings1 < 0 \<or> whitePoint settings1 < 0 then
            (case createPreview referenceRawBuffer 2
                    (settings1\<lparr>blacks := 0, whitePoint := 1\<rparr>) of
               Inl e \<Rightarrow> Inl e
             | Inr _ \<Rightarrow>
                 Inr (settings1\<lparr>blacks := fst (estimatedBlackWhitePoint K),
                                whitePoint := snd (estimatedBlackWhitePoint K)\<rparr>))
          else Inr settings1)"

text \<open>
  \<^verbatim>\<open>ImageProgressHelper::nextFusedImage\<close>, called once per fused frame by \<^verbatim>\<open>denoise\<close>.
\<close>

definition nextFusedImage :: "nat \<Rightarrow> nat \<Rightarrow> event" where
  "nextFusedImage numImages mCurImage =
     OnProgressUpdate \<lfloor>0 + (75 / real numImages) * real mCurImage\<rfloor>"

text \<open>\<^verbatim>\<open>postProcess\<close> builds the colour matrix and runs the opaque compositor.\<close>

definition postProcess :: "PostProcessSettings \<Rightarrow> RawImageMetadata \<Rightarrow> exn + unit" where
  "postProcess settings imageMetadata =
     createSrgbMatrix_settings settings (asShot imageMetadata)"

text \<open>
  The end of \<^verbatim>\<open>process\<close>, from the test of the \<^verbatim>\<open>dng\<close> setting: the DNG file, the
  post-processing, the output image, its EXIF data and \<^verbatim>\<open>imageSaved\<close>. The handler
  around \<^verbatim>\<open>util::WriteDng\<close> is for \<^verbatim>\<open>std::runtime_error\<close> and is empty.
\<close>

definition process_finish ::
  "Kernels \<Rightarrow> RawContainer \<Rightarrow> PostProcessSettings \<Rightarrow> RawImageBuffer \<Rightarrow> event list
     \<Rightarrow> event list \<times> (exn + unit)" where
  "process_finish K rawContainer settings referenceRawBuffer events =
     (case (if dng (getPostProcessSettings rawContainer) then
              (case writeDngResult K of
                 DngWritten \<Rightarrow> Inr (events @ [WriteDngFile])
               | DngRuntimeError \<Rightarrow> Inr events
               | DngLibraryError \<Rightarrow> Inl DngException)
            else Inr events) of
        Inl e \<Rightarrow> (events, Inl e)
      | Inr events1 \<Rightarrow>
          (case postProcess settings (metadata referenceRawBuffer) of
             Inl e \<Rightarrow> (events1, Inl e)
           | Inr _ \<Rightarrow>
               (events1 @ [PostProcessImage, OnProgressUpdate 95, WriteOutputImage,
                           AddExifMetadata, OnProgressUpdate 100, OnCompleted],
                Inr ())))"

text \<open>
  \<^verbatim>\<open>process\<close> on a container: the events and either the exception that leaves the
  function or its normal return. The opaque kernels of \<^verbatim>\<open>denoise\<close> are taken to
  return.
\<close>

definition process :: "Kernels \<Rightarrow> RawContainer \<Rightarrow> event list \<times> (exn + unit)" where
  "process K rawContainer =
     (let started = [OnProgressUpdate 0];
          underexposedImages = fst (process_underexposed rawContainer);
          container1 = snd (process_underexposed rawContainer)
      in if getFrames container1 = [] then
           (started @ [OnError ''No frames found'', OnCompleted], Inr ())
         else
           (let referenceFrame = getFrames container1 ! 0
            in if \<not> loadFrameOk referenceFrame then
                 (started @ [OnError ''Invalid reference frames'', OnCompleted], Inr ())
               else
                 (let container2 = removeFrame (frameName referenceFrame) container1;
                      referenceRawBuffer = frameBuffer referenceFrame
                  in case process_estimate K (getCameraMetadata container2)
                            referenceRawBuffer (getPostProcessSettings container2) of
                       Inl e \<Rightarrow> (started, Inl e)
                     | Inr settings \<Rightarrow>
                         (case createPreview referenceRawBuffer 2 settings of
                            Inl e \<Rightarrow> (started, Inl e)
                          | Inr _ \<Rightarrow>
                              (let saved = started @ [WritePreviewImage, OnPreviewSaved]
                               in case (if underexposedImages \<noteq> [] then
                                          prepareHdr (hdrKernels K) (getCameraMetadata container2)
                                            settings referenceRawBuffer
                                            (frameBuffer (underexposedImages ! 0))
                                        else Inr None) of
                                    Inl e \<Rightarrow> (saved, Inl e)
                                  | Inr hdrMetadata \<Rightarrow>
                                      (let numImages = length (getFrames container2);
                                           denoised = saved
                                             @ map (nextFusedImage numImages) [1..<Suc numImages]
                                             @ [OnProgressUpdate 75]
                                       in process_finish K container2 settings
                                            referenceRawBuffer denoised))))))"

text \<open>
  The overload of \<^verbatim>\<open>process\<close> that opens the container at a path; \<open>container\<close> is the
  container opened.
\<close>

definition process_path :: "Kernels \<Rightarrow> RawContainer \<Rightarrow> event list \<times> (exn + unit)" where
  "process_path K container =
     (if getFrames container = [] then ([OnError ''No frames found''], Inr ())
      else process K container)"

subsection \<open>Example inputs\<close>

text \<open>
  Concrete inputs at which the theorems below are instantiated: an image with no pixel,
  a pyramid image of \<open>k\<close> by \<open>k\<close> pixels for level \<open>k\<close>,
  a ghost map of 65 by 65 pixels of one value (its interior crop is the single pixel at
  row 32, column 32), a frame, kernels that return fixed values, and a container of two
  frames.
\<close>

definition blankImage :: image8 where
  "blankImage = \<lparr>rows = 0, cols = 0, pixel = (\<lambda>y x. 0)\<rparr>"

definition levelImage :: "nat \<Rightarrow> image8" where
  "levelImage k = \<lparr>rows = k, cols = k, pixel = (\<lambda>y x. 0)\<rparr>"

definition flatGhostMap :: "8 word \<Rightarrow> image8" where
  "flatGhostMap v = \<lparr>rows = 65, cols = 65, pixel = (\<lambda>y x. v)\<rparr>"

definition exampleCamera :: RawCameraMetadata where
  "exampleCamera = \<lparr>apertures = []\<rparr>"

definition exampleBuffer :: "real \<times> real \<times> real \<Rightarrow> RawImageBuffer" where
  "exampleBuffer wb =
     \<lparr>data = [], metadata = \<lparr>exposureTime = 10000000, iso = 100, asShot = wb\<rparr>\<rparr>"

definition exampleHdrKernels ::
  "(image8 \<Rightarrow> image8 \<Rightarrow> matrix \<Rightarrow> exn + matrix) \<Rightarrow> image8 \<Rightarrow> HdrKernels" where
  "exampleHdrKernels ecc ghostMap =
     \<lparr>loadRawImage = (\<lambda>buffer cameraMetadata extendEdges scalePreview.
                        \<lparr>rawBuffer = (\<lambda>p. 0), previewBuffer = blankImage\<rparr>),
      buildPyramid = (\<lambda>image maxlevel. replicate (Suc maxlevel) image),
      findTransformECC = ecc,
      mat_inv = (\<lambda>m. m),
      getBlackLevel = (\<lambda>cameraMetadata imageMetadata. [64, 64, 64, 64]),
      getWhiteLevel = (\<lambda>cameraMetadata imageMetadata. 1023),
      hdr_mask = (\<lambda>input0 input1 warp blackLevel whiteLevel scale. ghostMap)\<rparr>"

definition exampleSettings :: "real \<Rightarrow> PostProcessSettings" where
  "exampleSettings sh =
     \<lparr>shadows = sh, blacks = 0, whitePoint = 1, temperature = - 1, tint = - 1,
      captureMode = ''ZSL'', dng = True\<rparr>"

definition exampleKernels :: "DngResult \<Rightarrow> Kernels" where
  "exampleKernels r =
     \<lparr>measuredHistogram = [], estimatedBlackWhitePoint = (0, 1),
      hdrKernels = exampleHdrKernels (\<lambda>a b w. Inr w) (flatGhostMap 0),
      writeDngResult = r\<rparr>"

definition exampleContainer :: "real \<times> real \<times> real \<Rightarrow> real \<Rightarrow> RawContainer" where
  "exampleContainer wb sh =
     \<lparr>isHdr = False,
      getFrames = [\<lparr>frameName = ''frame0'', frameBuffer = exampleBuffer wb,
                    loadFrameOk = True\<rparr>,
                   \<lparr>frameName = ''frame1'', frameBuffer = exampleBuffer wb,
                    loadFrameOk = True\<rparr>],
      getCameraMetadata = exampleCamera,
      getPostProcessSettings = exampleSettings sh\<rparr>"

section \<open>Theorems\<close>

subsection \<open>Exposure value\<close>

text \<open>
  Claim C10. For every frame metadata the computed EV is
  \<open>log2 (a\<^sup>2 / t) - log2 (iso / 100)\<close>, where \<open>t\<close> is the exposure time in seconds (the
  stored nanoseconds divided by \<open>10\<^sup>9\<close>) and \<open>a\<close> is the first aperture of the camera
  when the aperture list is non-empty and the constant 1.8 otherwise. The aperture list
  is indexed only under the non-emptiness test, so an empty list yields the value
  computed from 1.8.
\<close>

theorem calcEv_formula:
  "calcEv cam md =
     log 2 ((case apertures cam of [] \<Rightarrow> 1.8 | a # _ \<Rightarrow> a)\<^sup>2
              / (real_of_int (exposureTime md) / 10 ^ 9))
     - log 2 (real_of_int (iso md) / 100)"
  by (cases "apertures cam") (simp_all add: calcEv_def Let_def power2_eq_square)

subsection \<open>Shadow estimation\<close>

lemma fold_estimateShadows_step:
  "fold (estimateShadows_step h) xs (a, t)
     = (a + sum_list (map (\<lambda>i. h ! i * ln (1 / 100000 + real i / real (length h))) xs),
        t + sum_list (map (\<lambda>i. h ! i) xs))"
  by (induction xs arbitrary: a t) (simp_all add: estimateShadows_step_def add.assoc)

lemma estimateShadows_avgLogLuminance:
  "estimateShadows h kv = max 1 (min (2 powr (kv / avgLogLuminance h)) 32)"
  by (simp add: estimateShadows_def avgLogLuminance_def ignoredBins_def Let_def
      fold_estimateShadows_step interv_sum_list_conv_sum_set_nat)

text \<open>
  Claim C8. For every histogram and EV, the estimated shadow lift is
  \<open>2 powr (keyValue / avgLogLuminance)\<close> clamped to the interval from 1 to 32, where
  \<open>keyValue = 1.03 - 6 / (6 + log10 (10 powr EV + 1))\<close>; hence the result of the shadow
  estimation always lies between 1 and 32. The accumulating loop of the source computes
  the two sums of \<open>avgLogLuminance\<close>.
\<close>

theorem estimateShadows_clamped:
  "estimateShadows histogram (getShadowKeyValue ev nightMode)
     = max 1 (min (2 powr (getShadowKeyValue ev nightMode / avgLogLuminance histogram)) 32)
   \<and> getShadowKeyValue ev nightMode = 1.03 - 6 / (6 + log 10 (10 powr ev + 1))
   \<and> 1 \<le> estimateShadows histogram keyValue
   \<and> estimateShadows histogram keyValue \<le> 32"
  by (simp add: estimateShadows_avgLogLuminance getShadowKeyValue_def SHADOW_BIAS_def)

subsection \<open>Automatic denoise weights\<close>

text \<open>
  The search loop from any start state: the final minimum is below every distance of the
  visited entries and below the start minimum, and the final index is either the start
  index (no entry was strictly nearer than the start minimum) or a visited index whose
  distance is the final minimum.
\<close>

lemma estimateDenoiseWeights_fold:
  assumes "fold (estimateDenoiseWeights_step s) xs (m, w) = (m', w')"
  shows "list_all (\<lambda>j. m' \<le> \<bar>s - SIGNAL_MAP ! j\<bar>) xs \<and> m' \<le> m \<and>
         ((m' = m \<and> w' = w) \<or> (w' \<in> set xs \<and> m' = \<bar>s - SIGNAL_MAP ! w'\<bar> \<and> m' < m))"
  using assms
proof (induction xs arbitrary: m w)
  case Nil
  then show ?case by simp
next
  case (Cons i xs)
  show ?case
  proof (cases "\<bar>s - SIGNAL_MAP ! i\<bar> < m")
    case True
    then have "estimateDenoiseWeights_step s i (m, w) = (\<bar>s - SIGNAL_MAP ! i\<bar>, i)"
      by (simp add: estimateDenoiseWeights_step_def Let_def)
    with Cons.prems
    have "fold (estimateDenoiseWeights_step s) xs (\<bar>s - SIGNAL_MAP ! i\<bar>, i) = (m', w')"
      by simp
    from Cons.IH [OF this] True show ?thesis by auto
  next
    case False
    then have "estimateDenoiseWeights_step s i (m, w) = (m, w)"
      by (simp add: estimateDenoiseWeights_step_def Let_def)
    with Cons.prems have "fold (estimateDenoiseWeights_step s) xs (m, w) = (m', w')"
      by simp
    from Cons.IH [OF this] False show ?thesis by auto
  qed
qed

lemma SIGNAL_MAP_nth:
  "SIGNAL_MAP ! 0 = 0.0001" "SIGNAL_MAP ! Suc 0 = 0.0025" "SIGNAL_MAP ! 2 = 0.005"
  "SIGNAL_MAP ! 3 = 0.01" "SIGNAL_MAP ! 4 = 0.03" "SIGNAL_MAP ! 5 = 0.05"
  by (simp_all add: SIGNAL_MAP_def)

lemma less_6_cases:
  "(w::nat) < 6 \<Longrightarrow> w = 0 \<or> w = 1 \<or> w = 2 \<or> w = 3 \<or> w = 4 \<or> w = 5"
  by arith

lemma list_all_upt_6:
  "list_all P [0..<6] = (P 0 \<and> P 1 \<and> P 2 \<and> P 3 \<and> P 4 \<and> P (5::nat))"
proof -
  have "[0..<6] = [0, 1, 2, 3, 4, 5::nat]" by (simp add: upt_rec)
  then show ?thesis by simp
qed

lemma estimateDenoiseWeights_index_spec:
  assumes "m' = fst (fold (estimateDenoiseWeights_step s) [0..<length WEIGHTS]
                      (100000, length WEIGHTS - 1))"
  shows "list_all (\<lambda>j. m' \<le> \<bar>s - SIGNAL_MAP ! j\<bar>) [0..<6] \<and> m' \<le> 100000 \<and>
         ((m' = 100000 \<and> estimateDenoiseWeights_index s = 5)
          \<or> (estimateDenoiseWeights_index s < 6
              \<and> m' = \<bar>s - SIGNAL_MAP ! estimateDenoiseWeights_index s\<bar> \<and> m' < 100000))"
proof -
  have len: "length WEIGHTS = 6" by (simp add: WEIGHTS_def)
  have "fold (estimateDenoiseWeights_step s) [0..<6] (100000, 5)
          = (m', estimateDenoiseWeights_index s)"
    using assms by (simp add: estimateDenoiseWeights_index_def len)
  from estimateDenoiseWeights_fold [OF this] show ?thesis by auto
qed

text \<open>
  The start minimum \<^verbatim>\<open>1e5\<close> hides every entry that is \<open>100000\<close> or more away from the
  level. Levels above \<open>-99999.9999\<close> are within that distance of the first entry; for
  a level at or below it no entry is within that distance and the start index 5 is
  returned.
\<close>

lemma estimateDenoiseWeights_index_low:
  assumes "- 99999.9999 < s" "s < 0.0001"
  shows "estimateDenoiseWeights_index s = 0"
proof -
  define m' where "m' = fst (fold (estimateDenoiseWeights_step s) [0..<length WEIGHTS]
                             (100000, length WEIGHTS - 1))"
  note spec = estimateDenoiseWeights_index_spec [OF m'_def]
  from spec have all: "m' \<le> \<bar>s - 0.0001\<bar>" by (simp add: list_all_upt_6 SIGNAL_MAP_nth)
  with assms have lt: "m' < 100000" by simp
  with spec have w: "estimateDenoiseWeights_index s < 6"
    and m: "m' = \<bar>s - SIGNAL_MAP ! estimateDenoiseWeights_index s\<bar>" by auto
  from less_6_cases [OF w] m all assms show ?thesis
    by (auto simp: SIGNAL_MAP_nth)
qed

lemma estimateDenoiseWeights_index_high:
  assumes "0.05 < s"
  shows "estimateDenoiseWeights_index s = 5"
proof -
  define m' where "m' = fst (fold (estimateDenoiseWeights_step s) [0..<length WEIGHTS]
                             (100000, length WEIGHTS - 1))"
  note spec = estimateDenoiseWeights_index_spec [OF m'_def]
  from spec have all: "m' \<le> \<bar>s - 0.05\<bar>" by (simp add: list_all_upt_6 SIGNAL_MAP_nth)
  from spec consider "estimateDenoiseWeights_index s = 5"
    | "estimateDenoiseWeights_index s < 6"
      "m' = \<bar>s - SIGNAL_MAP ! estimateDenoiseWeights_index s\<bar>"
    by auto
  then show ?thesis
  proof cases
    case 1
    then show ?thesis .
  next
    case 2
    from less_6_cases [OF 2(1)] 2(2) all assms show ?thesis
      by (auto simp: SIGNAL_MAP_nth)
  qed
qed

lemma estimateDenoiseWeights_index_nearest:
  assumes "- 99999.9999 < s"
  shows "estimateDenoiseWeights_index s < 6 \<and>
         list_all (\<lambda>j. \<bar>s - SIGNAL_MAP ! estimateDenoiseWeights_index s\<bar>
                        \<le> \<bar>s - SIGNAL_MAP ! j\<bar>) [0..<6]"
proof -
  define m' where "m' = fst (fold (estimateDenoiseWeights_step s) [0..<length WEIGHTS]
                             (100000, length WEIGHTS - 1))"
  note spec = estimateDenoiseWeights_index_spec [OF m'_def]
  from spec have all: "list_all (\<lambda>j. m' \<le> \<bar>s - SIGNAL_MAP ! j\<bar>) [0..<6]" by simp
  from spec consider "m' = 100000" "estimateDenoiseWeights_index s = 5"
    | "estimateDenoiseWeights_index s < 6"
      "m' = \<bar>s - SIGNAL_MAP ! estimateDenoiseWeights_index s\<bar>"
    by auto
  then show ?thesis
  proof cases
    case 1
    from all 1(1) have "100000 \<le> \<bar>s - 0.0001\<bar>"
      by (simp add: list_all_upt_6 SIGNAL_MAP_nth)
    with assms have "0.05 < s" by (simp add: abs_if split: if_splits)
    with 1(2) show ?thesis by (simp add: list_all_upt_6 SIGNAL_MAP_nth)
  next
    case 2
    with all show ?thesis by simp
  qed
qed

lemma estimateDenoiseWeights_index_far_below:
  assumes "s \<le> - 99999.9999"
  shows "estimateDenoiseWeights_index s = 5"
proof -
  define m' where "m' = fst (fold (estimateDenoiseWeights_step s) [0..<length WEIGHTS]
                             (100000, length WEIGHTS - 1))"
  note spec = estimateDenoiseWeights_index_spec [OF m'_def]
  from spec consider "estimateDenoiseWeights_index s = 5"
    | "estimateDenoiseWeights_index s < 6"
      "\<bar>s - SIGNAL_MAP ! estimateDenoiseWeights_index s\<bar> < 100000"
    by auto
  then show ?thesis
  proof cases
    case 1
    then show ?thesis .
  next
    case 2
    from less_6_cases [OF 2(1)] 2(2) assms show ?thesis
      by (auto simp: SIGNAL_MAP_nth)
  qed
qed

lemma WEIGHTS_table:
  "length WEIGHTS = 6 \<and> list_all (\<lambda>r. length r = 4) WEIGHTS
   \<and> list_all (attenuatesAtLeast (WEIGHTS ! 0)) WEIGHTS
   \<and> list_all (\<lambda>r. attenuatesAtLeast r (WEIGHTS ! 5)) WEIGHTS"
  by (simp add: WEIGHTS_def attenuatesAtLeast_def)

text \<open>
  Claim C5. A normalized signal level \<open>s\<close> is the average of the per-channel signal
  measurements divided by the white level, a quotient of non-negative quantities, so
  \<open>0 \<le> s\<close>. For every such level strictly below the lowest entry of the signal-level
  table, the automatic selection returns row 0 of the 6 by 4 weight table, whose weights
  are at least those of every row (the highest attenuation); for every level strictly
  above the highest entry it returns row 5, whose weights are at most those of every row
  (the lowest attenuation); and for every level it returns the row of a table entry that
  is nearest to the level.
\<close>

theorem estimateDenoiseWeights_selection:
  assumes "0 \<le> s"
  shows "(s < SIGNAL_MAP ! 0 \<longrightarrow> estimateDenoiseWeights s = WEIGHTS ! 0)
       \<and> (SIGNAL_MAP ! 5 < s \<longrightarrow> estimateDenoiseWeights s = WEIGHTS ! 5)
       \<and> estimateDenoiseWeights s = WEIGHTS ! estimateDenoiseWeights_index s
       \<and> estimateDenoiseWeights_index s < length SIGNAL_MAP
       \<and> list_all (\<lambda>j. \<bar>s - SIGNAL_MAP ! estimateDenoiseWeights_index s\<bar>
                        \<le> \<bar>s - SIGNAL_MAP ! j\<bar>) [0..<length SIGNAL_MAP]
       \<and> length WEIGHTS = 6 \<and> list_all (\<lambda>r. length r = 4) WEIGHTS
       \<and> list_all (attenuatesAtLeast (WEIGHTS ! 0)) WEIGHTS
       \<and> list_all (\<lambda>r. attenuatesAtLeast r (WEIGHTS ! 5)) WEIGHTS"
proof -
  have len: "length SIGNAL_MAP = 6" by (simp add: SIGNAL_MAP_def)
  from assms have lo: "- 99999.9999 < s" by simp
  have "s < SIGNAL_MAP ! 0 \<longrightarrow> estimateDenoiseWeights s = WEIGHTS ! 0"
    using estimateDenoiseWeights_index_low [OF lo]
    by (simp add: estimateDenoiseWeights_def SIGNAL_MAP_nth)
  moreover have "SIGNAL_MAP ! 5 < s \<longrightarrow> estimateDenoiseWeights s = WEIGHTS ! 5"
    using estimateDenoiseWeights_index_high
    by (simp add: estimateDenoiseWeights_def SIGNAL_MAP_nth)
  moreover note estimateDenoiseWeights_index_nearest [OF lo] WEIGHTS_table
  ultimately show ?thesis
    by (simp add: len estimateDenoiseWeights_def)
qed

theorem estimateDenoiseWeights_selection_witness:
  "estimateDenoiseWeights 0 = [12, 4, 2, 1] \<and> estimateDenoiseWeights 1 = [1, 1, 0, 0]"
  using estimateDenoiseWeights_selection [of 0] estimateDenoiseWeights_selection [of 1]
  by (simp add: SIGNAL_MAP_def WEIGHTS_def)

subsection \<open>Fusion kernel selection\<close>

lemma foldl_plus_sum_list: "foldl (+) a xs = a + sum_list (xs::real list)"
  by (induction xs arbitrary: a) simp_all

text \<open>
  Claim C3. For every burst the fusion kernel is selected by the normalized average
  signal level \<open>sa\<close>, which is the average of the per-channel signal values (the
  per-channel medians divided by \<open>iso / 100\<close>) divided by the white level. Exactly
  three buckets partition the levels: below \<open>0.02\<close> the kernel with window 7 is selected,
  from \<open>0.02\<close> and below \<open>0.04\<close> the kernel with window 5, and from \<open>0.04\<close> upwards the
  kernel with window 3.
\<close>

theorem denoise_method_buckets:
  "(denoise_method sa = fuse_denoise_7x7) = (sa < 0.02)
   \<and> (denoise_method sa = fuse_denoise_5x5) = (0.02 \<le> sa \<and> sa < 0.04)
   \<and> (denoise_method sa = fuse_denoise_3x3) = (0.04 \<le> sa)
   \<and> window (denoise_method sa) = (if sa < 0.02 then 7 else if sa < 0.04 then 5 else 3)
   \<and> denoise_signalAverage (measureNoise_signal medians md) wl
       = (sum_list (map (\<lambda>median. median / (real_of_int (iso md) / 100)) medians)
            / real (length medians)) / wl"
  by (simp add: denoise_method_def denoise_signalAverage_def measureNoise_signal_def
      foldl_plus_sum_list)

subsection \<open>Single-precision rounding\<close>

text \<open>
  \<open>pow2 k\<close> is \<open>2\<close> to the power \<open>k\<close>, and \<open>f32_exponent x\<close> is the exponent of \<open>x\<close>.
\<close>

lemma pow2_powr: "pow2 k = 2 powr (of_int k)"
  by (simp add: pow2_def powr_realpow [symmetric] powr_minus divide_inverse)

lemma pow2_pos: "0 < pow2 k"
  by (simp add: pow2_powr)

lemma pow2_add: "pow2 (a + b) = pow2 a * pow2 b"
  by (simp add: pow2_powr powr_add)

lemma pow2_mono: "a \<le> b \<Longrightarrow> pow2 a \<le> pow2 b"
  by (simp add: pow2_powr)

lemma roundTiesToEven_err: "\<bar>of_int (roundTiesToEven t) - t\<bar> \<le> 1/2"
  unfolding roundTiesToEven_def Let_def by (auto simp: abs_if) linarith+

lemma f32_exponent_bounds:
  assumes "x \<noteq> 0"
  shows "pow2 (f32_exponent x) \<le> \<bar>x\<bar>" and "\<bar>x\<bar> < pow2 (f32_exponent x + 1)"
proof -
  have "pow2 (f32_exponent x) \<le> \<bar>x\<bar> \<and> \<bar>x\<bar> < pow2 (f32_exponent x + 1)"
  proof (cases "1 \<le> \<bar>x\<bar>")
    case True
    let ?m = "\<lfloor>\<bar>x\<bar>\<rfloor>"
    from True have m: "0 < ?m" by simp
    from bitlen_bounds [OF m] have b: "2 ^ nat (bitlen ?m - 1) \<le> ?m" "?m < 2 ^ nat (bitlen ?m)"
      by simp_all
    from m have bl: "1 \<le> bitlen ?m" by (simp add: bitlen_alt_def)
    from b(1) have 1: "2 ^ nat (bitlen ?m - 1) \<le> \<bar>x\<bar>" by (simp add: le_floor_iff)
    from b(2) have 2: "\<bar>x\<bar> < 2 ^ nat (bitlen ?m)" by (simp add: floor_less_iff)
    from True bl 1 2 show ?thesis by (simp add: f32_exponent_def pow2_def)
  next
    case False
    let ?y = "1 / \<bar>x\<bar>"
    let ?m = "\<lceil>?y\<rceil> - 1"
    from False assms have y: "1 < ?y" by simp
    then have m: "0 < ?m" by (simp add: less_ceiling_iff)
    from bitlen_bounds [OF m] have b: "2 ^ nat (bitlen ?m - 1) \<le> ?m" "?m < 2 ^ nat (bitlen ?m)"
      by simp_all
    from m have bl: "1 \<le> bitlen ?m" by (simp add: bitlen_alt_def)
    from b(1) have "2 ^ nat (bitlen ?m - 1) < \<lceil>?y\<rceil>" by linarith
    then have 1: "2 ^ nat (bitlen ?m - 1) < ?y" by (simp add: less_ceiling_iff)
    from b(2) have "\<lceil>?y\<rceil> \<le> 2 ^ nat (bitlen ?m)" by linarith
    then have 2: "?y \<le> 2 ^ nat (bitlen ?m)" by (simp add: ceiling_le_iff)
    have x: "0 < \<bar>x\<bar>" using assms by simp
    from 2 x have 3: "1 / 2 ^ nat (bitlen ?m) \<le> \<bar>x\<bar>"
      by (simp add: field_simps)
    from 1 x have 4: "\<bar>x\<bar> < 1 / 2 ^ nat (bitlen ?m - 1)"
      by (simp add: field_simps)
    have e: "f32_exponent x = - bitlen ?m" using False by (simp add: f32_exponent_def)
    have n: "nat (- (1 - bitlen ?m)) = nat (bitlen ?m - 1)" by simp
    show ?thesis
    proof (cases "bitlen ?m = 1")
      case True
      with 3 4 e show ?thesis by (simp add: pow2_def)
    next
      case F: False
      with bl have "2 \<le> bitlen ?m" by simp
      with 3 4 e show ?thesis by (simp add: pow2_def n)
    qed
  qed
  then show "pow2 (f32_exponent x) \<le> \<bar>x\<bar>" and "\<bar>x\<bar> < pow2 (f32_exponent x + 1)"
    by simp_all
qed

lemma pow2_less_cancel: "pow2 a < pow2 b \<Longrightarrow> a < b"
  by (simp add: pow2_powr)

text \<open>
  The rounding error of \<open>f32\<close>: at most half a unit in the last place, which is at most
  \<open>\<bar>x\<bar> / 2\<^sup>2\<^sup>4\<close> for a normal \<open>x\<close> and \<open>2\<^sup>-\<^sup>1\<^sup>5\<^sup>0\<close> below the normal range. A natural number
  below \<open>2\<^sup>2\<^sup>4\<close> is a binary32 number.
\<close>

lemma f32_ulp_err:
  assumes "x \<noteq> 0"
  shows "\<bar>f32 x - x\<bar> \<le> pow2 (max (f32_exponent x) (- 126) - 23) / 2"
proof -
  let ?q = "pow2 (max (f32_exponent x) (- 126) - 23)"
  have q: "0 < ?q" by (rule pow2_pos)
  have "f32 x - x = (of_int (roundTiesToEven (x / ?q)) - x / ?q) * ?q"
    using assms q by (simp add: f32_def Let_def algebra_simps)
  then have "\<bar>f32 x - x\<bar> = \<bar>of_int (roundTiesToEven (x / ?q)) - x / ?q\<bar> * ?q"
    using q by (simp add: abs_mult)
  also have "\<dots> \<le> (1/2) * ?q"
    using roundTiesToEven_err [of "x / ?q"] q by (intro mult_right_mono) simp_all
  finally show ?thesis by simp
qed

lemma f32_err_normal:
  assumes "pow2 (- 126) \<le> \<bar>x\<bar>"
  shows "\<bar>f32 x - x\<bar> \<le> \<bar>x\<bar> / 2 ^ 24"
proof -
  have x: "x \<noteq> 0" using assms pow2_pos [of "- 126"] by auto
  let ?E = "f32_exponent x"
  from f32_exponent_bounds [OF x] assms have "pow2 (- 126) < pow2 (?E + 1)" by linarith
  then have "- 126 < ?E + 1" by (rule pow2_less_cancel)
  then have m: "max ?E (- 126) = ?E" by simp
  have "pow2 (?E - 23) = pow2 ?E * pow2 (- 23)"
    using pow2_add [of ?E "- 23"] by simp
  then have "pow2 (?E - 23) / 2 = pow2 ?E / 2 ^ 24" by (simp add: pow2_def)
  also have "\<dots> \<le> \<bar>x\<bar> / 2 ^ 24"
    using f32_exponent_bounds(1) [OF x] by (simp add: divide_right_mono)
  finally show ?thesis using f32_ulp_err [OF x] m by simp
qed

lemma f32_err_subnormal:
  assumes "\<bar>x\<bar> < pow2 (- 126)"
  shows "\<bar>f32 x - x\<bar> \<le> pow2 (- 150)"
proof (cases "x = 0")
  case True
  then show ?thesis using pow2_pos [of "- 150"] by (simp add: f32_def)
next
  case False
  let ?E = "f32_exponent x"
  from f32_exponent_bounds [OF False] assms have "pow2 ?E < pow2 (- 126)" by linarith
  then have "?E < - 126" by (rule pow2_less_cancel)
  then have m: "max ?E (- 126) = - 126" by simp
  have "pow2 (- 126 - 23) / 2 = pow2 (- 150)" by (simp add: pow2_def)
  with f32_ulp_err [OF False] m show ?thesis by simp
qed

lemma f32_err: "\<bar>f32 x - x\<bar> \<le> \<bar>x\<bar> / 2 ^ 24 + pow2 (- 150)"
proof (cases "pow2 (- 126) \<le> \<bar>x\<bar>")
  case True
  from f32_err_normal [OF True] pow2_pos [of "- 150"] show ?thesis by linarith
next
  case False
  then have "\<bar>x\<bar> < pow2 (- 126)" by simp
  from f32_err_subnormal [OF this] have "\<bar>f32 x - x\<bar> \<le> pow2 (- 150)" .
  moreover have "0 \<le> \<bar>x\<bar> / 2 ^ 24" by simp
  ultimately show ?thesis by linarith
qed

lemma roundTiesToEven_of_int: "roundTiesToEven (of_int z) = z"
  by (simp add: roundTiesToEven_def)

lemma f32_of_nat:
  assumes "n < 2 ^ 24"
  shows "f32 (real n) = real n"
proof (cases "n = 0")
  case True
  then show ?thesis by (simp add: f32_def)
next
  case False
  let ?m = "\<lfloor>\<bar>real n\<bar>\<rfloor>"
  have mn: "?m = int n" by simp
  from False have m: "0 < int n" by simp
  from m have bl: "1 \<le> bitlen (int n)" by (simp add: bitlen_alt_def)
  from assms have "int n < 2 ^ nat 24" by simp
  then have bu: "bitlen (int n) \<le> 24" using bitlen_le_iff_power [of "int n" 24] by simp
  from False have e: "f32_exponent (real n) = bitlen (int n) - 1"
    by (simp add: f32_exponent_def)
  let ?k = "nat (24 - bitlen (int n))"
  from bl bu have mx: "max (bitlen (int n) - 1) (- 126) = bitlen (int n) - 1" by simp
  have q: "pow2 (bitlen (int n) - 1 - 23) = 1 / 2 ^ ?k"
  proof (cases "bitlen (int n) = 24")
    case True
    then show ?thesis by (simp add: pow2_def)
  next
    case F: False
    with bu have "bitlen (int n) < 24" by simp
    moreover have "nat (24 - bitlen (int n)) = nat (- (bitlen (int n) - 1 - 23))" by simp
    ultimately show ?thesis by (simp add: pow2_def)
  qed
  have "real n / (1 / 2 ^ ?k) = of_int (int n * 2 ^ ?k)" by simp
  then have "roundTiesToEven (real n / (1 / 2 ^ ?k)) = int n * 2 ^ ?k"
    by (simp only: roundTiesToEven_of_int)
  with False e mx q show ?thesis by (simp add: f32_def Let_def)
qed

lemma pow2_numerals:
  "(2::real) ^ 20 = 1048576"
  "(2::real) ^ 24 = 16777216"
  "(2::real) ^ 25 = 33554432"
  "(2::real) ^ 120 = 1329227995784915872903807060280344576"
  "(2::real) ^ 126 = 85070591730234615865843651857942052864"
  "(2::real) ^ 150 = 1427247692705959881058285969449495136382746624"
  by simp_all

lemma pow2_m150: "pow2 (- 150) = 1 / 2 ^ 150"
  by (simp add: pow2_def)

lemma pow2_m126: "pow2 (- 126) = 1 / 2 ^ 126"
  by (simp add: pow2_def)

lemma f32_err': "\<bar>f32 x - x\<bar> \<le> \<bar>x\<bar> / 2 ^ 24 + 1 / 2 ^ 150"
  using f32_err [of x] by (simp only: pow2_m150)

lemma f32_err_normal': "1 / 2 ^ 126 \<le> \<bar>x\<bar> \<Longrightarrow> \<bar>f32 x - x\<bar> \<le> \<bar>x\<bar> / 2 ^ 24"
  using f32_err_normal [of x] by (simp only: pow2_m126)

text \<open>
  Propagation of the rounding errors through \<^verbatim>\<open>p * s + 0.5f\<close>, through a division by a
  rounded denominator, and through the product of the rounded pixel and the rounded
  scale.
\<close>

lemma mulAdd_err:
  "\<bar>mulAdd fused a b (1/2) - (a * b + 1/2)\<bar> \<le> 3 * \<bar>a * b\<bar> / 2 ^ 24 + 1 / 2 ^ 25 + 3 / 2 ^ 150"
proof -
  define m where "m = a * b"
  define t where "t = f32 m"
  have 0: "\<bar>f32 (m + 1/2) - (m + 1/2)\<bar> \<le> \<bar>m + 1/2\<bar> / 2 ^ 24 + 1 / 2 ^ 150"
    by (rule f32_err')
  have 1: "\<bar>t - m\<bar> \<le> \<bar>m\<bar> / 2 ^ 24 + 1 / 2 ^ 150"
    unfolding t_def by (rule f32_err')
  have 2: "\<bar>f32 (t + 1/2) - (t + 1/2)\<bar> \<le> \<bar>t + 1/2\<bar> / 2 ^ 24 + 1 / 2 ^ 150"
    by (rule f32_err')
  have f: "\<bar>f32 (m + 1/2) - (m + 1/2)\<bar> \<le> 3 * \<bar>m\<bar> / 2 ^ 24 + 1 / 2 ^ 25 + 3 / 2 ^ 150"
    using 0 unfolding pow2_numerals by argo
  have u: "\<bar>f32 (t + 1/2) - (m + 1/2)\<bar> \<le> 3 * \<bar>m\<bar> / 2 ^ 24 + 1 / 2 ^ 25 + 3 / 2 ^ 150"
    using 1 2 unfolding pow2_numerals by argo
  have "mulAdd fused a b (1/2) = (if fused then f32 (m + 1/2) else f32 (t + 1/2))"
    by (simp add: mulAdd_def t_def m_def)
  with f u show ?thesis unfolding m_def by (cases fused) simp_all
qed

lemma div_pert:
  fixes x g D :: real
  assumes "0 < g" and "\<bar>D - g\<bar> \<le> g / 2 ^ 24"
  shows "\<bar>x / D - x / g\<bar> \<le> (11/10) * \<bar>x / g\<bar> / 2 ^ 24"
proof -
  from assms have D: "0 < D" unfolding pow2_numerals by argo
  have "x / D - x / g = (x / g) * ((g - D) / D)"
    using assms(1) D by (simp add: field_simps)
  then have "\<bar>x / D - x / g\<bar> = \<bar>x / g\<bar> * (\<bar>g - D\<bar> / D)"
    using D by (simp add: abs_mult)
  also have "\<dots> \<le> \<bar>x / g\<bar> * ((11/10) / 2 ^ 24)"
  proof (rule mult_left_mono)
    have "\<bar>g - D\<bar> * (10 * 2 ^ 24) \<le> 11 * D"
      using assms unfolding pow2_numerals by argo
    then show "\<bar>g - D\<bar> / D \<le> (11/10) / 2 ^ 24"
      using D by (simp add: field_simps)
  qed simp
  finally show ?thesis by simp
qed

lemma scale_err:
  fixes E g :: real
  assumes "1 \<le> E" and "1 \<le> g" and "g \<le> 2 ^ 24"
  shows "\<bar>f32 (E / f32 g) - E / g\<bar> \<le> 3 * (E / g) / 2 ^ 24"
proof -
  define D where "D = f32 g"
  define q where "q = E / g"
  define X where "X = E / D"
  have "1 / 2 ^ 126 \<le> \<bar>g\<bar>" using assms(2) unfolding pow2_numerals by argo
  from f32_err_normal' [OF this] assms(2) have D: "\<bar>D - g\<bar> \<le> g / 2 ^ 24"
    by (simp add: D_def)
  from assms have g: "0 < g" by simp
  from div_pert [OF g D, of E] have X: "\<bar>X - q\<bar> \<le> (11/10) * \<bar>q\<bar> / 2 ^ 24"
    by (simp add: q_def X_def)
  have "1 / 2 ^ 24 \<le> E / g" using assms by (intro frac_le) simp_all
  then have q: "1 / 2 ^ 24 \<le> q" by (simp add: q_def)
  from X q have "1 / 2 ^ 126 \<le> \<bar>X\<bar>" unfolding pow2_numerals by argo
  from f32_err_normal' [OF this] have "\<bar>f32 X - X\<bar> \<le> \<bar>X\<bar> / 2 ^ 24" .
  with X q have "\<bar>f32 X - q\<bar> \<le> 3 * q / 2 ^ 24" unfolding pow2_numerals by argo
  then show ?thesis by (simp add: D_def q_def X_def)
qed

lemma prod_err:
  fixes p a s q c :: real
  assumes p: "\<bar>p - a\<bar> \<le> (4 * \<bar>a\<bar> + 3 * c) / 2 ^ 24 + 3 / 2 ^ 150"
    and s: "\<bar>s - q\<bar> \<le> 3 * q / 2 ^ 24"
    and q: "0 \<le> q" "q \<le> 2 ^ 24" and c: "0 \<le> c"
  shows "\<bar>p * s - a * q\<bar> \<le> (15 * \<bar>a * q\<bar> + 7 * (c * q)) / 2 ^ 25 + 1 / 2 ^ 120"
proof -
  define AQ where "AQ = \<bar>a\<bar> * q"
  define CQ where "CQ = c * q"
  have e: "p * s - a * q = (p - a) * s + a * (s - q)" by (simp add: algebra_simps)
  have sb: "\<bar>s\<bar> \<le> q * (1 + 3 / 2 ^ 24)"
  proof -
    have "q * (1 + 3 / 2 ^ 24) = q + 3 * q / 2 ^ 24" by (simp add: algebra_simps)
    with s q show ?thesis unfolding pow2_numerals by argo
  qed
  have "\<bar>(p - a) * s\<bar> = \<bar>p - a\<bar> * \<bar>s\<bar>" by (simp add: abs_mult)
  also have "\<dots> \<le> ((4 * \<bar>a\<bar> + 3 * c) / 2 ^ 24 + 3 / 2 ^ 150) * (q * (1 + 3 / 2 ^ 24))"
    using p sb c by (intro mult_mono) simp_all
  also have "\<dots> = (1 + 3 / 2 ^ 24) * (4 * AQ / 2 ^ 24 + 3 * CQ / 2 ^ 24 + 3 * q / 2 ^ 150)"
    by (simp add: algebra_simps AQ_def CQ_def)
  finally have 1: "\<bar>(p - a) * s\<bar>
      \<le> (1 + 3 / 2 ^ 24) * (4 * AQ / 2 ^ 24 + 3 * CQ / 2 ^ 24 + 3 * q / 2 ^ 150)" .
  have "\<bar>a * (s - q)\<bar> = \<bar>a\<bar> * \<bar>s - q\<bar>" by (simp add: abs_mult)
  also have "\<dots> \<le> \<bar>a\<bar> * (3 * q / 2 ^ 24)" using s by (intro mult_left_mono) simp_all
  finally have 2: "\<bar>a * (s - q)\<bar> \<le> 3 * AQ / 2 ^ 24" by (simp add: AQ_def)
  have aq: "\<bar>a * q\<bar> = AQ" using q by (simp add: abs_mult AQ_def)
  have aq0: "0 \<le> AQ" using q by (simp add: AQ_def)
  have cq0: "0 \<le> CQ" using q c by (simp add: CQ_def)
  have 3: "\<bar>p * s - a * q\<bar> \<le> \<bar>(p - a) * s\<bar> + \<bar>a * (s - q)\<bar>"
    unfolding e by (rule abs_triangle_ineq)
  have "(1 + 3 / 2 ^ 24) * (4 * AQ / 2 ^ 24 + 3 * CQ / 2 ^ 24 + 3 * q / 2 ^ 150) + 3 * AQ / 2 ^ 24
          \<le> (15 * AQ + 7 * CQ) / 2 ^ 25 + 1 / 2 ^ 120"
    using aq0 cq0 q unfolding pow2_numerals by argo
  with 1 2 3 have "\<bar>p * s - a * q\<bar> \<le> (15 * AQ + 7 * CQ) / 2 ^ 25 + 1 / 2 ^ 120"
    by linarith
  then show ?thesis by (simp only: aq CQ_def)
qed

lemma norm_err:
  fixes m v w k :: real
  assumes m: "\<bar>m - v\<bar> \<le> (15 * \<bar>v\<bar> + 7 * k) / 2 ^ 25 + 1 / 2 ^ 120"
    and w: "\<bar>w - (m + 1/2)\<bar> \<le> 3 * \<bar>m\<bar> / 2 ^ 24 + 1 / 2 ^ 25 + 3 / 2 ^ 150"
    and k: "0 \<le> k"
  shows "\<bar>w - (v + 1/2)\<bar> \<le> (11 * \<bar>v\<bar> + 4 * k + 1) / 2 ^ 24"
  using assms unfolding pow2_numerals by argo

subsection \<open>Normalisation of the fused burst\<close>

lemma toUint16_clamped:
  assumes "er < 65536"
  shows "unat (toUint16 (max 0 (min v (real er)))) = nat \<lfloor>max 0 (min v (real er))\<rfloor>"
proof -
  let ?r = "max 0 (min v (real er))"
  have "0 \<le> ?r" "?r \<le> real er" by simp_all
  then have "0 \<le> \<lfloor>?r\<rfloor>" "\<lfloor>?r\<rfloor> \<le> int er" by (simp_all add: le_floor_iff floor_le_iff)
  with assms have "0 \<le> \<lfloor>?r\<rfloor>" "\<lfloor>?r\<rfloor> < 2 ^ 16" by simp_all
  then show ?thesis
    by (simp add: toUint16_def unat_eq_nat_uint uint_word_of_int take_bit_int_eq_self)
qed

text \<open>
  If \<open>w\<close> is close to \<open>v + 1/2\<close>, the integer part of the clamped \<open>w\<close> is close to the
  clamped \<open>v\<close>.
\<close>

lemma clamp_floor:
  fixes w v A B d :: real and er :: nat
  assumes w: "\<bar>w - (v + 1/2)\<bar> \<le> A * \<bar>v\<bar> + B"
    and A: "0 \<le> A" and B: "0 \<le> B" and d: "A * real er + B \<le> d" "d < 1/2"
    and er: "0 < er"
  shows "\<bar>real (nat \<lfloor>max 0 (min w (real er))\<rfloor>) - max 0 (min v (real er))\<bar> \<le> 1/2 + d"
proof -
  have E: "1 \<le> real er" using er by simp
  have "A * 1 \<le> A * real er" using A E by (intro mult_left_mono) simp_all
  with d B have A1: "A < 1/2" by simp
  have "0 \<le> A * real er" using A by simp
  with d have Bd: "B \<le> d" by linarith
  with B have d0: "0 \<le> d" by linarith
  consider "v < 0" | "real er < v" | "0 \<le> v" "v \<le> real er" by linarith
  then show ?thesis
  proof cases
    case 1
    then have "A * \<bar>v\<bar> \<le> (1/2) * \<bar>v\<bar>" using A1 by (intro mult_right_mono) simp_all
    with w 1 d Bd have "w < 1" by argo
    then have "max 0 (min w (real er)) < 1" "0 \<le> max 0 (min w (real er))" using E by simp_all
    then have "\<lfloor>max 0 (min w (real er))\<rfloor> = 0" by (simp add: floor_eq_iff)
    with 1 d0 show ?thesis by simp
  next
    case 2
    have "A * \<bar>v\<bar> = A * real er + A * (v - real er)" using 2 by (simp add: algebra_simps)
    moreover have "A * (v - real er) \<le> (1/2) * (v - real er)"
      using A1 2 by (intro mult_right_mono) simp_all
    ultimately have "real er \<le> w" using w d 2 B by argo
    then have "max 0 (min w (real er)) = real er" by simp
    then have "real (nat \<lfloor>max 0 (min w (real er))\<rfloor>) = real er" by simp
    moreover have "max 0 (min v (real er)) = real er" using 2 E by simp
    ultimately show ?thesis using d0 by simp
  next
    case 3
    then have "A * \<bar>v\<bar> \<le> A * real er" using A by (intro mult_left_mono) simp_all
    with w d have wv: "\<bar>w - (v + 1/2)\<bar> \<le> d" by linarith
    show ?thesis
    proof (cases "real er \<le> w")
      case True
      then have "max 0 (min w (real er)) = real er" by simp
      then have "real (nat \<lfloor>max 0 (min w (real er))\<rfloor>) = real er" by simp
      moreover have "max 0 (min v (real er)) = v" using 3 by simp
      ultimately show ?thesis using 3 wv True by argo
    next
      case False
      from wv 3 d have w0: "0 \<le> w" by argo
      with False have m: "max 0 (min w (real er)) = w" by simp
      from w0 have "0 \<le> \<lfloor>w\<rfloor>" by simp
      then have r: "real (nat \<lfloor>w\<rfloor>) = of_int \<lfloor>w\<rfloor>" by simp
      have f: "of_int \<lfloor>w\<rfloor> \<le> w" "w < of_int \<lfloor>w\<rfloor> + 1" by linarith+
      from 3 have eq2: "max 0 (min v (real er)) = v" by simp
      have eq1: "real (nat \<lfloor>max 0 (min w (real er))\<rfloor>) = of_int \<lfloor>w\<rfloor>"
        by (simp only: m r)
      from f wv have "\<bar>of_int \<lfloor>w\<rfloor> - v\<bar> \<le> 1/2 + d" by linarith
      then show ?thesis by (simp only: eq1 eq2)
    qed
  qed
qed

text \<open>
  The conversion at the end of both branches: if \<open>p\<close> approximates \<open>a\<close>, the output pixel
  approximates the normalized value of \<open>a\<close>.
\<close>

lemma normalize_err:
  fixes p a b wl c :: real and er :: nat
  assumes er: "0 < er" "er < 65536" and wl: "b + 1 \<le> wl" "wl - b \<le> 2 ^ 24"
    and p: "\<bar>p - a\<bar> \<le> (4 * \<bar>a\<bar> + 3 * c) / 2 ^ 24 + 3 / 2 ^ 150"
    and c: "0 \<le> c" "c \<le> wl - b"
  shows "\<bar>real (unat (toUint16 (max 0 (min
            (mulAdd fused p (f32 (f32 (real er) / f32 (wl - b))) (1/2)) (f32 (real er))))))
          - max 0 (min (a * (real er / (wl - b))) (real er))\<bar> \<le> 1/2 + (real er + 1) / 2 ^ 20"
proof -
  define g where "g = wl - b"
  define q where "q = real er / g"
  define s where "s = f32 (real er / f32 g)"
  define w where "w = mulAdd fused p s (1/2)"
  have fe: "f32 (real er) = real er" using er by (intro f32_of_nat) simp
  have g: "1 \<le> g" "g \<le> 2 ^ 24" using wl by (simp_all add: g_def)
  have E: "1 \<le> real er" "real er \<le> 65535" using er by simp_all
  have s: "\<bar>s - q\<bar> \<le> 3 * q / 2 ^ 24"
    unfolding s_def q_def using E(1) g by (rule scale_err)
  have q0: "0 \<le> q" using g by (simp add: q_def)
  have "real er / g \<le> real er / 1" using g E by (intro divide_left_mono) simp_all
  then have qE: "q \<le> real er" by (simp add: q_def)
  with E have q24: "q \<le> 2 ^ 24" by simp
  have k0: "0 \<le> c * q" using c q0 by simp
  have "c * real er \<le> g * real er" using c by (intro mult_right_mono) (simp_all add: g_def)
  then have kE: "c * q \<le> real er" using g by (simp add: q_def field_simps)
  from prod_err [OF p s q0 q24 c(1)]
  have m: "\<bar>p * s - a * q\<bar> \<le> (15 * \<bar>a * q\<bar> + 7 * (c * q)) / 2 ^ 25 + 1 / 2 ^ 120" .
  have "\<bar>w - (p * s + 1/2)\<bar> \<le> 3 * \<bar>p * s\<bar> / 2 ^ 24 + 1 / 2 ^ 25 + 3 / 2 ^ 150"
    unfolding w_def by (rule mulAdd_err)
  from norm_err [OF m this k0]
  have "\<bar>w - (a * q + 1/2)\<bar> \<le> (11 * \<bar>a * q\<bar> + 4 * (c * q) + 1) / 2 ^ 24" .
  then have w: "\<bar>w - (a * q + 1/2)\<bar> \<le> (11 / 2 ^ 24) * \<bar>a * q\<bar> + (4 * (c * q) + 1) / 2 ^ 24"
    by (simp add: field_simps)
  have d1: "(11 / 2 ^ 24) * real er + (4 * (c * q) + 1) / 2 ^ 24 \<le> (real er + 1) / 2 ^ 20"
    using kE E unfolding pow2_numerals by argo
  have d2: "(real er + 1) / 2 ^ 20 < 1/2" using E by simp
  have B: "0 \<le> (4 * (c * q) + 1) / 2 ^ 24" using k0 by simp
  from clamp_floor [OF w _ B d1 d2 er(1)]
  have "\<bar>real (nat \<lfloor>max 0 (min w (real er))\<rfloor>) - max 0 (min (a * q) (real er))\<bar>
          \<le> 1/2 + (real er + 1) / 2 ^ 20" by simp
  then show ?thesis
    using toUint16_clamped [OF er(2), of w]
    by (simp add: fe w_def s_def q_def g_def)
qed

text \<open>The value \<open>p\<close> in the branch of the reference and in the branch of the mean.\<close>

lemma reference_err:
  fixes r b :: real
  shows "\<bar>f32 (r - b) - (r - b)\<bar> \<le> (4 * \<bar>r - b\<bar> + 3 * 0) / 2 ^ 24 + 3 / 2 ^ 150"
  using f32_err' [of "r - b"] unfolding pow2_numerals by argo

lemma fused_err:
  fixes F b :: real and n :: nat
  assumes n: "2 \<le> n" and b: "0 \<le> b"
  shows "\<bar>f32 (f32 (F / f32 (real n)) - b) - (F / real n - b)\<bar>
           \<le> (4 * \<bar>F / real n - b\<bar> + 3 * b) / 2 ^ 24 + 3 / 2 ^ 150"
proof -
  define y0 where "y0 = F / real n"
  define y where "y = F / f32 (real n)"
  define Fn where "Fn = f32 y"
  have "1 / 2 ^ 126 \<le> \<bar>real n\<bar>" using n unfolding pow2_numerals by simp
  from f32_err_normal' [OF this] have "\<bar>f32 (real n) - real n\<bar> \<le> real n / 2 ^ 24" by simp
  from div_pert [OF _ this, of F] n
  have 1: "\<bar>y - y0\<bar> \<le> (11/10) * \<bar>y0\<bar> / 2 ^ 24" by (simp add: y_def y0_def)
  have 2: "\<bar>Fn - y\<bar> \<le> \<bar>y\<bar> / 2 ^ 24 + 1 / 2 ^ 150" unfolding Fn_def by (rule f32_err')
  have 3: "\<bar>f32 (Fn - b) - (Fn - b)\<bar> \<le> \<bar>Fn - b\<bar> / 2 ^ 24 + 1 / 2 ^ 150" by (rule f32_err')
  from 1 2 3 b
  have "\<bar>f32 (Fn - b) - (y0 - b)\<bar> \<le> (4 * \<bar>y0 - b\<bar> + 3 * b) / 2 ^ 24 + 3 / 2 ^ 150"
    unfolding pow2_numerals by argo
  then show ?thesis by (simp add: Fn_def y_def y0_def)
qed

text \<open>
  With exactly one companion frame the test \<^verbatim>\<open>processFrames.size() <= 1\<close> selects the
  branch that reads the reference planes: the output is the output for no companion
  frame, whatever the kernel has accumulated.
\<close>

lemma denoise_denoiseInput_one_frame:
  "length processFrames = 1 \<Longrightarrow>
     denoise_denoiseInput fused er method reference processFrames bl wl
       = denoise_denoiseInput fused er method reference [] bl wl"
  by (simp add: denoise_denoiseInput_def Let_def)

text \<open>
  The two overloads agree on every burst but the bursts of exactly one companion frame,
  where the overload on a list of buffers normalizes what the kernel has accumulated.
\<close>

lemma denoise_overloads_agree:
  "length processFrames \<noteq> 1 \<Longrightarrow>
     denoise_denoiseInput fused er method reference processFrames bl wl
       = denoise_buffers_denoiseInput fused er method reference processFrames bl wl"
  by (cases processFrames)
    (simp_all add: denoise_denoiseInput_def denoise_buffers_denoiseInput_def Let_def)

lemma denoise_buffers_denoiseInput_one_frame:
  "denoise_buffers_denoiseInput fused er method reference [current] bl wl (x, y, c)
     = toUint16 (max 0 (min
         (mulAdd fused
            (f32 (f32 (method reference current (\<lambda>p. 0) (x, y, c) / f32 1) - bl ! c))
            (f32 (f32 (real er) / f32 (wl - bl ! c))) (1/2))
         (f32 (real er))))"
  by (simp add: denoise_buffers_denoiseInput_def denoise_fuse_def Let_def)

text \<open>
  Evaluation of \<open>f32\<close> on numerals, and three pixels with \<open>EXPANDED_RANGE = 16384\<close>, with
  or without the fused multiply-add. For black level 64 and white level 1023, a
  reference pixel of value 875 and no companion frame give 13856, and two companion
  frames whose accumulated sum is 400 give 2323. For black level 0 and white level 4095,
  a reference pixel of value 2559 and no companion frame give 10239.
\<close>

lemma bitlen_rec: "0 < x \<Longrightarrow> bitlen x = bitlen (x div 2) + 1"
  by (subst compute_bitlen) simp

lemmas f32_eval = f32_def f32_exponent_def bitlen_rec roundTiesToEven_def pow2_def mulAdd_def

lemma denoise_denoiseInput_example_reference:
  "unat (denoise_denoiseInput fused 16384 method (\<lambda>p. 875) [] [64, 64, 64, 64] 1023
           (0, 0, 0)) = 13856"
proof (cases fused)
  case True
  then show ?thesis
    apply (simp add: denoise_denoiseInput_def Let_def toUint16_def)
    apply (simp add: f32_eval)
    done
next
  case False
  then show ?thesis
    apply (simp add: denoise_denoiseInput_def Let_def toUint16_def)
    apply (simp add: f32_eval)
    done
qed

lemma denoise_denoiseInput_example_4095:
  "unat (denoise_denoiseInput fused 16384 method (\<lambda>p. 2559) [] [0, 0, 0, 0] 4095
           (0, 0, 0)) = 10239"
proof (cases fused)
  case True
  then show ?thesis
    apply (simp add: denoise_denoiseInput_def Let_def toUint16_def)
    apply (simp add: f32_eval)
    done
next
  case False
  then show ?thesis
    apply (simp add: denoise_denoiseInput_def Let_def toUint16_def)
    apply (simp add: f32_eval)
    done
qed

lemma denoise_denoiseInput_example_mean:
  "unat (denoise_denoiseInput fused 16384
           (\<lambda>reference current fuseOutput p. fuseOutput p + real (unat (current p)))
           (\<lambda>p. 875) [\<lambda>p. 100, \<lambda>p. 300] [64, 64, 64, 64] 1023 (0, 0, 0)) = 2323"
proof (cases fused)
  case True
  then show ?thesis
    apply (simp add: denoise_denoiseInput_def denoise_fuse_def Let_def toUint16_def)
    apply (simp add: f32_eval)
    done
next
  case False
  then show ?thesis
    apply (simp add: denoise_denoiseInput_def denoise_fuse_def Let_def toUint16_def)
    apply (simp add: f32_eval)
    done
qed

text \<open>
  The output pixel is not always an integer nearest to the normalized value. For the
  reference pixel 875 the normalized value is \<open>13287424 / 959\<close>, which is less than
  13855.5, and the output pixel is 13856: the sum \<^verbatim>\<open>p * s + 0.5f\<close> is rounded up to
  13856 before the conversion. Likewise the reference pixel 2559 with the levels 0 and
  4095 has the normalized value \<open>41926656 / 4095\<close>, less than 10238.5, and the output
  pixel 10239.
\<close>

lemma denoise_denoiseInput_not_nearest:
  "1/2 < \<bar>real (unat (denoise_denoiseInput fused 16384 method (\<lambda>p. 875) [] [64, 64, 64, 64]
                           1023 (0, 0, 0)))
           - normalized 16384 875 64 1023\<bar>
   \<and> 1/2 < \<bar>real (unat (denoise_denoiseInput fused 16384 method (\<lambda>p. 2559) [] [0, 0, 0, 0]
                             4095 (0, 0, 0)))
             - normalized 16384 2559 0 4095\<bar>"
  by (simp add: denoise_denoiseInput_example_reference denoise_denoiseInput_example_4095
      normalized_def)

text \<open>
  Claim C2, as amended. Let \<open>EXPANDED_RANGE\<close> be from 1 to 65535, the black level of
  channel \<open>c\<close> be non-negative, and the white level be at least the black level plus 1 and
  at most \<open>2\<^sup>2\<^sup>4\<close>. For every burst with at least two companion frames, where the black
  level is at most half the white level and the accumulated sum is at most \<open>2\<^sup>6\<^sup>4\<close> in
  magnitude, each output pixel of channel \<open>c\<close> differs from the normalized mean by at most
  \<open>1/2 + (EXPANDED_RANGE + 1) / 2\<^sup>2\<^sup>0\<close>; the normalized mean is the accumulated sum divided
  by the number of companion frames, less the black level, times
  \<open>EXPANDED_RANGE / (whiteLevel - blackLevel c)\<close>, clamped to the interval from 0 to
  \<open>EXPANDED_RANGE\<close>. With no companion frame the output pixel differs by at most the same
  bound from the normalized value of the reference pixel. The output pixel is thus the
  normalized value rounded to an integer, up to the rounding of the single-precision
  operations; this holds whether or not the compiler fuses the multiplication and the
  addition.
\<close>

theorem denoise_denoiseInput_normalized:
  assumes "0 < er" and "er < 65536" and "c < length bl"
    and "0 \<le> bl ! c" and "bl ! c + 1 \<le> wl" and "wl \<le> 2 ^ 24"
  shows "(2 \<le> length processFrames \<and> 2 * bl ! c \<le> wl
            \<and> \<bar>denoise_fuse method reference processFrames (x, y, c)\<bar> \<le> 2 ^ 64 \<longrightarrow>
           \<bar>real (unat (denoise_denoiseInput fused er method reference processFrames bl wl
                            (x, y, c)))
              - normalized er (denoise_fuse method reference processFrames (x, y, c)
                                 / real (length processFrames)) (bl ! c) wl\<bar>
             \<le> 1/2 + (real er + 1) / 2 ^ 20)
       \<and> (processFrames = [] \<longrightarrow>
           \<bar>real (unat (denoise_denoiseInput fused er method reference processFrames bl wl
                            (x, y, c)))
              - normalized er (real (unat (reference (x, y, c)))) (bl ! c) wl\<bar>
             \<le> 1/2 + (real er + 1) / 2 ^ 20)"
proof (intro conjI impI)
  have g: "wl - bl ! c \<le> 2 ^ 24" using assms(4,6) by linarith
  assume h: "2 \<le> length processFrames \<and> 2 * bl ! c \<le> wl
            \<and> \<bar>denoise_fuse method reference processFrames (x, y, c)\<bar> \<le> 2 ^ 64"
  then have cb: "bl ! c \<le> wl - bl ! c" by linarith
  from h have n: "2 \<le> length processFrames" "\<not> length processFrames \<le> 1" by simp_all
  from normalize_err [OF assms(1,2,5) g fused_err [OF n(1) assms(4)] assms(4) cb] n(2)
  show "\<bar>real (unat (denoise_denoiseInput fused er method reference processFrames bl wl
                            (x, y, c)))
              - normalized er (denoise_fuse method reference processFrames (x, y, c)
                                 / real (length processFrames)) (bl ! c) wl\<bar>
             \<le> 1/2 + (real er + 1) / 2 ^ 20"
    by (simp add: denoise_denoiseInput_def normalized_def Let_def)
next
  have g: "wl - bl ! c \<le> 2 ^ 24" using assms(4,6) by linarith
  have cb: "0 \<le> wl - bl ! c" using assms(5) by linarith
  assume "processFrames = []"
  with normalize_err [OF assms(1,2,5) g reference_err _ cb]
  show "\<bar>real (unat (denoise_denoiseInput fused er method reference processFrames bl wl
                            (x, y, c)))
              - normalized er (real (unat (reference (x, y, c)))) (bl ! c) wl\<bar>
             \<le> 1/2 + (real er + 1) / 2 ^ 20"
    by (simp add: denoise_denoiseInput_def normalized_def Let_def)
qed

text \<open>
  Instances of the theorem for C2 with \<open>EXPANDED_RANGE = 16384\<close>, black level 64 and
  white level 1023: a reference pixel of value 875 and no companion frame (the output is
  13856), and two companion frames whose accumulated sum is 400 (the output is 2323).
\<close>

theorem denoise_denoiseInput_normalized_witness:
  "\<bar>real (unat (denoise_denoiseInput False 16384
                    (\<lambda>reference current fuseOutput p. fuseOutput p + real (unat (current p)))
                    (\<lambda>p. 875) [] [64, 64, 64, 64] 1023 (0, 0, 0)))
      - normalized 16384 875 64 1023\<bar> \<le> 1/2 + 16385 / 2 ^ 20
   \<and> \<bar>real (unat (denoise_denoiseInput True 16384
                      (\<lambda>reference current fuseOutput p. fuseOutput p + real (unat (current p)))
                      (\<lambda>p. 875) [\<lambda>p. 100, \<lambda>p. 300] [64, 64, 64, 64] 1023 (0, 0, 0)))
        - normalized 16384 200 64 1023\<bar> \<le> 1/2 + 16385 / 2 ^ 20"
  using denoise_denoiseInput_normalized
      [of 16384 0 "[64, 64, 64, 64]" 1023 "[]"
          "\<lambda>reference current fuseOutput p. fuseOutput p + real (unat (current p))"
          "\<lambda>p. 875" 0 0 False]
    denoise_denoiseInput_normalized
      [of 16384 0 "[64, 64, 64, 64]" 1023 "[\<lambda>p. 100, \<lambda>p. 300]"
          "\<lambda>reference current fuseOutput p. fuseOutput p + real (unat (current p))"
          "\<lambda>p. 875" 0 0 True]
  by (simp add: denoise_fuse_def)

text \<open>
  Claim C2 as stated fails: it gives the output for no companion frame as exactly the
  clamped normalized value of the reference pixel. For a reference pixel of value 40,
  black level 0, white level 1023 and \<open>EXPANDED_RANGE = 16384\<close> the normalized value is
  \<open>655360 / 1023\<close>, which is not an integer, and the output pixel is 641, with or
  without the fused multiply-add.
\<close>

theorem denoise_denoiseInput_not_exact:
  "real (unat (denoise_denoiseInput False 16384 (\<lambda>reference current fuseOutput. fuseOutput)
                 (\<lambda>p. 40) [] [0, 0, 0, 0] 1023 (0, 0, 0)))
     \<noteq> normalized 16384 40 0 1023
   \<and> real (unat (denoise_denoiseInput True 16384 (\<lambda>reference current fuseOutput. fuseOutput)
                   (\<lambda>p. 40) [] [0, 0, 0, 0] 1023 (0, 0, 0)))
       \<noteq> normalized 16384 40 0 1023"
  apply (simp add: denoise_denoiseInput_def normalized_def toUint16_def Let_def)
  apply (simp add: f32_eval)
  done

subsection \<open>Image registration\<close>

text \<open>
  If the loop gets to a level and the solver raises \<^verbatim>\<open>cv::Exception\<close> there, the loop
  returns the empty matrix.
\<close>

lemma registerImage2_loop_raises:
  assumes "registerImage2_warpAt ecc cur ref k warp i = Some w"
    and "ecc (cur ! i) (ref ! i) w = Inl CvException"
  shows "registerImage2_loop ecc cur ref k warp = Inr EmptyMat"
  using assms(1)
proof (induction k arbitrary: warp)
  case 0
  then show ?case by simp
next
  case (Suc k)
  show ?case
  proof (cases "i = Suc k")
    case True
    with Suc.prems have "w = warp" by simp
    with True assms(2) show ?thesis by simp
  next
    case False
    with Suc.prems obtain warp' where
      ok: "ecc (cur ! Suc k) (ref ! Suc k) warp = Inr warp'"
      and at: "registerImage2_warpAt ecc cur ref k (mul warp' scaleWarpMatrix) i = Some w"
      by (auto split: sum.splits)
    from Suc.IH [OF at] ok show ?thesis by simp
  qed
qed

text \<open>The levels that the loop started at level \<open>k\<close> gets to are among \<open>1, \<dots>, k\<close>.\<close>

lemma registerImage2_warpAt_level:
  "registerImage2_warpAt ecc cur ref k warp i = Some w \<Longrightarrow> 0 < i \<and> i \<le> k"
proof (induction k arbitrary: warp)
  case 0
  then show ?case by simp
next
  case (Suc k)
  show ?case
  proof (cases "i = Suc k")
    case True
    then show ?thesis by simp
  next
    case False
    with Suc.prems obtain warp' where
      "registerImage2_warpAt ecc cur ref k (mul warp' scaleWarpMatrix) i = Some w"
      by (auto split: sum.splits)
    from Suc.IH [OF this] show ?thesis by simp
  qed
qed

text \<open>
  The empty matrix is returned only after a \<^verbatim>\<open>cv::Exception\<close> of the solver at a level
  that the loop got to.
\<close>

lemma registerImage2_loop_empty:
  "registerImage2_loop ecc cur ref k warp = Inr EmptyMat \<Longrightarrow>
     \<exists>i w. registerImage2_warpAt ecc cur ref k warp i = Some w
           \<and> ecc (cur ! i) (ref ! i) w = Inl CvException"
proof (induction k arbitrary: warp)
  case 0
  then show ?case by simp
next
  case (Suc k)
  show ?case
  proof (cases "ecc (cur ! Suc k) (ref ! Suc k) warp")
    case (Inl e)
    with Suc.prems have "e = CvException" by (cases e) simp_all
    with Inl have "registerImage2_warpAt ecc cur ref (Suc k) warp (Suc k) = Some warp
        \<and> ecc (cur ! Suc k) (ref ! Suc k) warp = Inl CvException" by simp
    then show ?thesis by blast
  next
    case (Inr warp')
    with Suc.prems
    have "registerImage2_loop ecc cur ref k (mul warp' scaleWarpMatrix) = Inr EmptyMat"
      by simp
    from Suc.IH [OF this] obtain i w where
      at: "registerImage2_warpAt ecc cur ref k (mul warp' scaleWarpMatrix) i = Some w"
      and ex: "ecc (cur ! i) (ref ! i) w = Inl CvException" by blast
    from registerImage2_warpAt_level [OF at] have "i \<noteq> Suc k" by simp
    with at Inr have "registerImage2_warpAt ecc cur ref (Suc k) warp i = Some w" by simp
    with ex show ?thesis by blast
  qed
qed

text \<open>A \<^verbatim>\<open>cv::Exception\<close> never leaves the loop.\<close>

lemma registerImage2_loop_catches:
  "registerImage2_loop ecc cur ref k warp \<noteq> Inl CvException"
proof (induction k arbitrary: warp)
  case 0
  then show ?case by simp
next
  case (Suc k)
  show ?case
  proof (cases "ecc (cur ! Suc k) (ref ! Suc k) warp")
    case (Inl e)
    then show ?thesis by (cases e) simp_all
  next
    case (Inr warp')
    with Suc.IH show ?thesis by simp
  qed
qed

text \<open>
  Claim C4. The solver is OpenCV's \<^verbatim>\<open>findTransformECC\<close>, which raises \<^verbatim>\<open>cv::Exception\<close>.
  For every pair of preview images, if the solver raises at a pyramid level \<open>i\<close> (the
  loop has got to level \<open>i\<close> and calls the solver there with the warp \<open>w\<close>), image
  registration returns the empty matrix, which is not the identity homography, and the
  exception does not leave \<^verbatim>\<open>registerImage2\<close>; and when the registration inside
  \<^verbatim>\<open>prepareHdr\<close> returns the empty matrix, \<^verbatim>\<open>prepareHdr\<close> returns no layer.
\<close>

theorem registerImage2_solver_exception:
  assumes reached:
      "registerImage2_warpAt ecc (pyr toAlign ALIGN_PYRAMID_LEVELS)
         (pyr ref ALIGN_PYRAMID_LEVELS) (length (pyr toAlign ALIGN_PYRAMID_LEVELS) - 1) eye3 i
       = Some w"
    and raises:
      "ecc (pyr toAlign ALIGN_PYRAMID_LEVELS ! i) (pyr ref ALIGN_PYRAMID_LEVELS ! i) w
       = Inl CvException"
  shows "registerImage2 pyr ecc ref toAlign = Inr EmptyMat
       \<and> isEmpty EmptyMat \<and> EmptyMat \<noteq> Matrix eye3
       \<and> registerImage2 pyr ecc ref toAlign \<noteq> Inl CvException
       \<and> (prepareHdr_register K cam reference underexposed = Inr EmptyMat
            \<longrightarrow> prepareHdr K cam settings reference underexposed = Inr None)"
proof -
  from registerImage2_loop_raises [OF reached raises]
  show ?thesis
    by (simp add: registerImage2_def Let_def prepareHdr_def)
qed

text \<open>
  Instances of the theorem for C4. With a pyramid whose image at level \<open>k\<close> has \<open>k\<close> rows
  and a solver that raises \<^verbatim>\<open>cv::Exception\<close> on the image of level 3 and returns its
  warp otherwise, the loop gets to level 3 with the identity and the registration is
  the empty matrix. With a solver that raises at every level, the registration of the
  example previews is the empty matrix and \<^verbatim>\<open>prepareHdr\<close> returns no layer.
\<close>

theorem registerImage2_solver_exception_witness:
  "registerImage2 (\<lambda>image maxlevel. map levelImage [0..<Suc maxlevel])
     (\<lambda>a b w. if rows a = 3 then Inl CvException else Inr w) blankImage blankImage
   = Inr EmptyMat
   \<and> prepareHdr (exampleHdrKernels (\<lambda>a b w. Inl CvException) (flatGhostMap 0)) exampleCamera
       (exampleSettings 1) (exampleBuffer (1, 1, 1)) (exampleBuffer (1, 1, 1)) = Inr None"
proof -
  let ?K = "exampleHdrKernels (\<lambda>a b w. Inl CvException) (flatGhostMap 0)"
  have "registerImage2_warpAt (\<lambda>a b w. if rows a = 3 then Inl CvException else Inr w)
          (map levelImage [0..<6]) (map levelImage [0..<6]) 5 eye3 3 = Some eye3"
    by (simp add: eval_nat_numeral levelImage_def mul_def scaleWarpMatrix_def eye3_def
        upt_rec)
  with registerImage2_solver_exception
    [of "\<lambda>a b w. if rows a = 3 then Inl CvException else Inr w"
        "\<lambda>image maxlevel. map levelImage [0..<Suc maxlevel]" blankImage blankImage 3 eye3]
  have level3: "registerImage2 (\<lambda>image maxlevel. map levelImage [0..<Suc maxlevel])
                  (\<lambda>a b w. if rows a = 3 then Inl CvException else Inr w) blankImage blankImage
                = Inr EmptyMat"
    by (simp add: ALIGN_PYRAMID_LEVELS_def levelImage_def)
  note inst = registerImage2_solver_exception
    [of "\<lambda>a b w. Inl CvException" "\<lambda>image maxlevel. replicate (Suc maxlevel) image"
        blankImage blankImage 5 eye3 ?K exampleCamera "exampleBuffer (1, 1, 1)"
        "exampleBuffer (1, 1, 1)" "exampleSettings 1"]
  have reg: "registerImage2 (\<lambda>image maxlevel. replicate (Suc maxlevel) image)
               (\<lambda>a b w. Inl CvException) blankImage blankImage = Inr EmptyMat"
    using inst by (simp add: ALIGN_PYRAMID_LEVELS_def eval_nat_numeral)
  then have "prepareHdr_register ?K exampleCamera (exampleBuffer (1, 1, 1))
               (exampleBuffer (1, 1, 1)) = Inr EmptyMat"
    by (simp add: prepareHdr_register_def exampleHdrKernels_def)
  with inst have "prepareHdr ?K exampleCamera (exampleSettings 1) (exampleBuffer (1, 1, 1))
                    (exampleBuffer (1, 1, 1)) = Inr None"
    by (simp add: ALIGN_PYRAMID_LEVELS_def eval_nat_numeral)
  with level3 show ?thesis by simp
qed

subsection \<open>HDR rejection\<close>

lemma trimmedGhostMapSum_sum:
  "real (trimmedGhostMapSum g)
     = (\<Sum>y = 32..<rows g - 32. \<Sum>x = 32..<cols g - 32. real (unat (pixel g y x)))"
  by (simp add: trimmedGhostMapSum_def interv_sum_list_conv_sum_set_nat)

text \<open>
  Claim C6. For every reference and underexposed frame, HDR preparation compares the
  mean of the ghost map over the interior crop (the rows and columns from 32 up to the
  size less 32, that is, without a margin of 32 pixels on each side) with the tolerance
  \<open>0.0001\<close>. When the two frames register and that mean exceeds the tolerance, it returns
  no layer; it returns a layer only if the frames register and the mean is within the
  tolerance.
\<close>

theorem prepareHdr_ghost_error:
  "(\<forall>warpMatrix err.
      prepareHdr_register K cam reference underexposed = Inr (Matrix warpMatrix)
      \<longrightarrow> trimmedGhostMapMean (prepareHdr_ghostMap K cam reference underexposed warpMatrix)
            = Inr err
      \<longrightarrow> MAX_HDR_ERROR < err
      \<longrightarrow> prepareHdr K cam settings reference underexposed = Inr None)
   \<and> (\<forall>layer.
        prepareHdr K cam settings reference underexposed = Inr (Some layer)
        \<longrightarrow> (\<exists>warpMatrix err.
               prepareHdr_register K cam reference underexposed = Inr (Matrix warpMatrix)
               \<and> trimmedGhostMapMean
                    (prepareHdr_ghostMap K cam reference underexposed warpMatrix) = Inr err
               \<and> err \<le> MAX_HDR_ERROR))
   \<and> (64 < cols g \<and> 64 < rows g
        \<longrightarrow> trimmedGhostMapMean g
             = Inr ((\<Sum>y = 32..<rows g - 32. \<Sum>x = 32..<cols g - 32.
                       real (unat (pixel g y x)))
                    / real ((cols g - 64) * (rows g - 64))))
   \<and> MAX_HDR_ERROR = 1 / 10000"
proof -
  have reject: "\<forall>warpMatrix err.
      prepareHdr_register K cam reference underexposed = Inr (Matrix warpMatrix)
      \<longrightarrow> trimmedGhostMapMean (prepareHdr_ghostMap K cam reference underexposed warpMatrix)
            = Inr err
      \<longrightarrow> MAX_HDR_ERROR < err
      \<longrightarrow> prepareHdr K cam settings reference underexposed = Inr None"
    by (simp add: prepareHdr_def)
  have accept: "\<forall>layer.
        prepareHdr K cam settings reference underexposed = Inr (Some layer)
        \<longrightarrow> (\<exists>warpMatrix err.
               prepareHdr_register K cam reference underexposed = Inr (Matrix warpMatrix)
               \<and> trimmedGhostMapMean
                    (prepareHdr_ghostMap K cam reference underexposed warpMatrix) = Inr err
               \<and> err \<le> MAX_HDR_ERROR)"
    by (auto simp: prepareHdr_def split: sum.splits cvMat.splits if_splits)
  have mean: "64 < cols g \<and> 64 < rows g
        \<longrightarrow> trimmedGhostMapMean g
             = Inr ((\<Sum>y = 32..<rows g - 32. \<Sum>x = 32..<cols g - 32.
                       real (unat (pixel g y x)))
                    / real ((cols g - 64) * (rows g - 64)))"
    by (simp add: trimmedGhostMapMean_def trimmedGhostMapSum_sum Let_def)
  have "MAX_HDR_ERROR = 1 / 10000" by (simp add: MAX_HDR_ERROR_def)
  with reject accept mean show ?thesis by blast
qed

lemma example_register:
  "prepareHdr_register (exampleHdrKernels (\<lambda>a b w. Inr w) g) cam r u = Inr (Matrix eye3)"
  by (simp add: prepareHdr_register_def exampleHdrKernels_def registerImage2_def
      ALIGN_PYRAMID_LEVELS_def Let_def eval_nat_numeral mul_def scaleWarpMatrix_def eye3_def)

lemma example_mean: "trimmedGhostMapMean (flatGhostMap v) = Inr (real (unat v))"
  by (simp add: trimmedGhostMapMean_def flatGhostMap_def trimmedGhostMapSum_def
      upt_rec [of 32])

text \<open>
  Instances of the theorem for C6: a ghost map whose interior mean is 1 is rejected; for
  a ghost map that is 0 everywhere a layer is returned, and the theorem gives a mean
  within the tolerance.
\<close>

theorem prepareHdr_ghost_error_witness:
  "prepareHdr (exampleHdrKernels (\<lambda>a b w. Inr w) (flatGhostMap 1)) exampleCamera
     (exampleSettings 1) (exampleBuffer (1, 1, 1)) (exampleBuffer (1, 1, 1)) = Inr None
   \<and> trimmedGhostMapMean (flatGhostMap 1) = Inr 1
   \<and> prepareHdr (exampleHdrKernels (\<lambda>a b w. Inr w) (flatGhostMap 0)) exampleCamera
       (exampleSettings 1) (exampleBuffer (1, 1, 1)) (exampleBuffer (1, 1, 1))
     = Inr (Some \<lparr>exposureScale = 1, gain = 1, error = 0\<rparr>)
   \<and> (\<exists>warpMatrix err.
         prepareHdr_register (exampleHdrKernels (\<lambda>a b w. Inr w) (flatGhostMap 0))
           exampleCamera (exampleBuffer (1, 1, 1)) (exampleBuffer (1, 1, 1))
           = Inr (Matrix warpMatrix)
         \<and> trimmedGhostMapMean
              (prepareHdr_ghostMap (exampleHdrKernels (\<lambda>a b w. Inr w) (flatGhostMap 0))
                 exampleCamera (exampleBuffer (1, 1, 1)) (exampleBuffer (1, 1, 1))
                 warpMatrix) = Inr err
         \<and> err \<le> MAX_HDR_ERROR)"
proof -
  let ?md = "exampleBuffer (1, 1, 1)"
  have rejected: "prepareHdr (exampleHdrKernels (\<lambda>a b w. Inr w) (flatGhostMap 1))
                    exampleCamera (exampleSettings 1) ?md ?md = Inr None"
    using prepareHdr_ghost_error
        [of "exampleHdrKernels (\<lambda>a b w. Inr w) (flatGhostMap 1)" exampleCamera ?md ?md
            "exampleSettings 1" "flatGhostMap 1"]
      example_register example_mean [of 1]
    by (simp add: prepareHdr_ghostMap_def exampleHdrKernels_def MAX_HDR_ERROR_def)
  have accepted: "prepareHdr (exampleHdrKernels (\<lambda>a b w. Inr w) (flatGhostMap 0))
                    exampleCamera (exampleSettings 1) ?md ?md
                  = Inr (Some \<lparr>exposureScale = 1, gain = 1, error = 0\<rparr>)"
    using example_register example_mean [of 0]
    by (simp add: prepareHdr_def prepareHdr_ghostMap_def exampleHdrKernels_def
        MAX_HDR_ERROR_def createSrgbMatrix_settings_def createSrgbMatrix_asShot_def
        vec3_max_def exampleSettings_def exampleBuffer_def prepareHdr_exposureScale_def)
  from accepted rejected example_mean [of 1]
    prepareHdr_ghost_error
      [of "exampleHdrKernels (\<lambda>a b w. Inr w) (flatGhostMap 0)" exampleCamera ?md ?md
          "exampleSettings 1" "flatGhostMap 0"]
  show ?thesis by simp
qed

subsection \<open>Fatal input errors of \<^verbatim>\<open>process\<close>\<close>

lemma removeFrame_fields:
  "getPostProcessSettings (removeFrame n c) = getPostProcessSettings c"
  "getCameraMetadata (removeFrame n c) = getCameraMetadata c"
  by (simp_all add: removeFrame_def)

lemma fold_removeFrame_fields:
  "getPostProcessSettings (fold (\<lambda>frame. removeFrame (frameName frame)) fs c)
     = getPostProcessSettings c"
  "getCameraMetadata (fold (\<lambda>frame. removeFrame (frameName frame)) fs c)
     = getCameraMetadata c"
  by (induction fs arbitrary: c) (simp_all add: removeFrame_fields)

lemma process_underexposed_fields:
  "getPostProcessSettings (snd (process_underexposed c)) = getPostProcessSettings c"
  "getCameraMetadata (snd (process_underexposed c)) = getCameraMetadata c"
  by (simp_all add: process_underexposed_def Let_def fold_removeFrame_fields)

lemma createSrgbMatrix_asShot_zero:
  "vec3_max v \<le> 0 \<Longrightarrow>
     createSrgbMatrix_asShot v = Inl (InvalidState ''Camera white balance vector is zero'')"
  by (simp add: createSrgbMatrix_asShot_def Let_def)

lemma createPreview_zero:
  "vec3_max (asShot (metadata md)) \<le> 0 \<Longrightarrow> temperature s \<le> 0 \<Longrightarrow> tint s \<le> 0 \<Longrightarrow>
     createPreview md 2 s = Inl (InvalidState ''Camera white balance vector is zero'')"
  by (simp add: createPreview_def createSrgbMatrix_settings_def createSrgbMatrix_asShot_zero)

lemma process_estimate_zero_auto:
  "vec3_max (asShot (metadata md)) \<le> 0 \<Longrightarrow> shadows s < 0 \<Longrightarrow>
     process_estimate K cam md s = Inl (InvalidState ''Camera white balance vector is zero'')"
  by (simp add: process_estimate_def calcHistogram_def createSrgbMatrix_asShot_zero Let_def)

lemma process_estimate_fields:
  "process_estimate K cam md s = Inr s' \<Longrightarrow>
     temperature s' = temperature s \<and> tint s' = tint s"
  by (auto simp: process_estimate_def Let_def split: if_splits sum.splits)

lemma process_estimate_raises:
  "process_estimate K cam md s = Inl e \<Longrightarrow>
     e = InvalidState ''Camera white balance vector is zero''"
  by (auto simp: process_estimate_def Let_def calcHistogram_def createPreview_def
        createSrgbMatrix_settings_def createSrgbMatrix_asShot_def
      split: if_splits sum.splits prod.splits)

text \<open>
  Claim C7, as amended. Let \<open>c'\<close> be the container after the underexposed frames of a HDR
  capture are moved out. If \<open>c'\<close> has no frame, \<^verbatim>\<open>process\<close> calls the listener's
  \<^verbatim>\<open>onError\<close> exactly once (followed by \<^verbatim>\<open>onCompleted\<close>), writes nothing and returns
  without raising; the overload that opens a container reports an empty container in
  the same way, by one call of \<^verbatim>\<open>onError\<close>. If the first frame of \<open>c'\<close>, the reference,
  cannot be loaded, \<^verbatim>\<open>process\<close> again calls \<^verbatim>\<open>onError\<close> exactly once, writes nothing and
  returns without raising. If the reference loads and its white-balance vector has no
  positive component, and the shadows are to be estimated or neither a temperature nor
  a tint is set, then \<^verbatim>\<open>InvalidState\<close> leaves \<^verbatim>\<open>process\<close>: the exception is raised to the
  caller, nothing has been written, and \<^verbatim>\<open>onError\<close> is not called.
\<close>

theorem process_fatal_errors:
  "(getFrames (snd (process_underexposed c)) = []
      \<longrightarrow> process K c = ([OnProgressUpdate 0, OnError ''No frames found'', OnCompleted], Inr ()))
   \<and> (getFrames (snd (process_underexposed c)) \<noteq> []
       \<and> \<not> loadFrameOk (getFrames (snd (process_underexposed c)) ! 0)
      \<longrightarrow> process K c
          = ([OnProgressUpdate 0, OnError ''Invalid reference frames'', OnCompleted], Inr ()))
   \<and> (getFrames c = [] \<longrightarrow> process_path K c = ([OnError ''No frames found''], Inr ()))
   \<and> (getFrames (snd (process_underexposed c)) \<noteq> []
       \<and> loadFrameOk (getFrames (snd (process_underexposed c)) ! 0)
       \<and> vec3_max (asShot (metadata (frameBuffer (getFrames (snd (process_underexposed c)) ! 0))))
            \<le> 0
       \<and> (shadows (getPostProcessSettings c) < 0
           \<or> temperature (getPostProcessSettings c) \<le> 0 \<and> tint (getPostProcessSettings c) \<le> 0)
      \<longrightarrow> process K c
          = ([OnProgressUpdate 0], Inl (InvalidState ''Camera white balance vector is zero'')))"
proof -
  let ?c1 = "snd (process_underexposed c)"
  let ?ref = "getFrames ?c1 ! 0"
  let ?buf = "frameBuffer ?ref"
  let ?s = "getPostProcessSettings c"
  let ?zero = "InvalidState ''Camera white balance vector is zero''"
  have none: "getFrames ?c1 = []
      \<longrightarrow> process K c = ([OnProgressUpdate 0, OnError ''No frames found'', OnCompleted], Inr ())"
    by (simp add: process_def Let_def)
  have invalid: "getFrames ?c1 \<noteq> [] \<and> \<not> loadFrameOk ?ref
      \<longrightarrow> process K c
          = ([OnProgressUpdate 0, OnError ''Invalid reference frames'', OnCompleted], Inr ())"
    by (simp add: process_def Let_def)
  have path: "getFrames c = [] \<longrightarrow> process_path K c = ([OnError ''No frames found''], Inr ())"
    by (simp add: process_path_def)
  have wb: "process K c = ([OnProgressUpdate 0], Inl ?zero)"
    if ne: "getFrames ?c1 \<noteq> []" and ok: "loadFrameOk ?ref"
      and zero: "vec3_max (asShot (metadata ?buf)) \<le> 0"
      and sel: "shadows ?s < 0 \<or> temperature ?s \<le> 0 \<and> tint ?s \<le> 0"
  proof (cases "process_estimate K (getCameraMetadata c) ?buf ?s")
    case (Inl e)
    then have "e = ?zero" by (rule process_estimate_raises)
    with Inl ne ok show ?thesis
      by (simp add: process_def Let_def removeFrame_fields process_underexposed_fields)
  next
    case (Inr s')
    with zero sel have "temperature ?s \<le> 0 \<and> tint ?s \<le> 0"
      by (auto simp: process_estimate_zero_auto)
    with process_estimate_fields [OF Inr] have "temperature s' \<le> 0" "tint s' \<le> 0"
      by simp_all
    with zero have "createPreview ?buf 2 s' = Inl ?zero" by (simp add: createPreview_zero)
    with Inr ne ok show ?thesis
      by (simp add: process_def Let_def removeFrame_fields process_underexposed_fields)
  qed
  from none invalid path wb show ?thesis by blast
qed

text \<open>
  Instances of the theorem for C7: a container without frames, a container whose only
  frame cannot be loaded, and a container whose frames have the white-balance vector
  \<open>(0, 0, 0)\<close>, with the shadows given and no temperature and no tint set.
\<close>

theorem process_fatal_errors_witness:
  "process (exampleKernels DngWritten) (exampleContainer (1, 1, 1) 1\<lparr>getFrames := []\<rparr>)
     = ([OnProgressUpdate 0, OnError ''No frames found'', OnCompleted], Inr ())
   \<and> process_path (exampleKernels DngWritten) (exampleContainer (1, 1, 1) 1\<lparr>getFrames := []\<rparr>)
     = ([OnError ''No frames found''], Inr ())
   \<and> process (exampleKernels DngWritten)
       (exampleContainer (1, 1, 1) 1
          \<lparr>getFrames := [\<lparr>frameName = ''frame0'', frameBuffer = exampleBuffer (1, 1, 1),
                           loadFrameOk = False\<rparr>]\<rparr>)
     = ([OnProgressUpdate 0, OnError ''Invalid reference frames'', OnCompleted], Inr ())
   \<and> process (exampleKernels DngWritten)
       (exampleContainer (1, 1, 1) 1
          \<lparr>getFrames := [\<lparr>frameName = ''frame0'', frameBuffer = exampleBuffer (0, 0, 0),
                           loadFrameOk = True\<rparr>]\<rparr>)
     = ([OnProgressUpdate 0], Inl (InvalidState ''Camera white balance vector is zero''))"
  using
    process_fatal_errors
      [of "exampleContainer (1, 1, 1) 1\<lparr>getFrames := []\<rparr>" "exampleKernels DngWritten"]
    process_fatal_errors
      [of "exampleContainer (1, 1, 1) 1
             \<lparr>getFrames := [\<lparr>frameName = ''frame0'', frameBuffer = exampleBuffer (1, 1, 1),
                              loadFrameOk = False\<rparr>]\<rparr>" "exampleKernels DngWritten"]
    process_fatal_errors
      [of "exampleContainer (1, 1, 1) 1
             \<lparr>getFrames := [\<lparr>frameName = ''frame0'', frameBuffer = exampleBuffer (0, 0, 0),
                              loadFrameOk = True\<rparr>]\<rparr>" "exampleKernels DngWritten"]
  by (simp add: process_underexposed_def exampleContainer_def exampleSettings_def
      exampleBuffer_def vec3_max_def)

text \<open>
  Claim C7 as stated fails for the zero white-balance vector: for the example container
  whose frames have the white-balance vector \<open>(0, 0, 0)\<close> and whose shadows are to be
  estimated, \<^verbatim>\<open>process\<close> makes no call of \<^verbatim>\<open>onError\<close>, and \<^verbatim>\<open>InvalidState\<close> is raised to
  the caller.
\<close>

theorem process_zero_white_balance_raises:
  "process (exampleKernels DngWritten) (exampleContainer (0, 0, 0) (- 1))
     = ([OnProgressUpdate 0], Inl (InvalidState ''Camera white balance vector is zero''))"
  by (simp add: process_def process_underexposed_def exampleContainer_def exampleSettings_def
      exampleBuffer_def exampleKernels_def removeFrame_def process_estimate_def
      calcHistogram_def createSrgbMatrix_asShot_def vec3_max_def Let_def)

subsection \<open>Failure of the DNG output\<close>

text \<open>
  A \<^verbatim>\<open>std::runtime_error\<close> of \<^verbatim>\<open>util::WriteDng\<close> is caught: the end of \<^verbatim>\<open>process\<close> is the
  one without a DNG file. An exception of the DNG library is not caught by the handler
  for \<^verbatim>\<open>std::runtime_error\<close>: it leaves \<^verbatim>\<open>process\<close> before the post-processing.
\<close>

lemma process_finish_runtime_error:
  "writeDngResult K = DngRuntimeError \<Longrightarrow>
     process_finish K c s r ev
       = (case postProcess s (metadata r) of
            Inl e \<Rightarrow> (ev, Inl e)
          | Inr _ \<Rightarrow> (ev @ [PostProcessImage, OnProgressUpdate 95, WriteOutputImage,
                           AddExifMetadata, OnProgressUpdate 100, OnCompleted], Inr ()))"
  by (simp add: process_finish_def)

lemma process_finish_library_error:
  "dng (getPostProcessSettings c) \<Longrightarrow> writeDngResult K = DngLibraryError \<Longrightarrow>
     process_finish K c s r ev = (ev, Inl DngException)"
  by (simp add: process_finish_def)

lemma process_example_runtime_error:
  "process (exampleKernels DngRuntimeError) (exampleContainer (1, 1, 1) 1)
     = ([OnProgressUpdate 0, WritePreviewImage, OnPreviewSaved, OnProgressUpdate 75,
         OnProgressUpdate 75, PostProcessImage, OnProgressUpdate 95, WriteOutputImage,
         AddExifMetadata, OnProgressUpdate 100, OnCompleted], Inr ())"
  by (simp add: process_def process_underexposed_def exampleContainer_def exampleSettings_def
      exampleBuffer_def exampleKernels_def removeFrame_def process_estimate_def
      createPreview_def createSrgbMatrix_settings_def postProcess_def
      createSrgbMatrix_asShot_def vec3_max_def Let_def process_finish_def nextFusedImage_def)

text \<open>
  Claim C9 says that a failure while the DNG output is written is caught inside the
  pipeline, and that the post-processing, the JPEG output and the completion callback
  still run. For the example capture with the \<^verbatim>\<open>dng\<close> setting on, a failure that the DNG
  library reports by its own exception leaves \<^verbatim>\<open>process\<close>: after the progress update of
  the denoising there is no post-processing, no output image and no call of
  \<^verbatim>\<open>onCompleted\<close>.
\<close>

theorem process_dng_library_error:
  "process (exampleKernels DngLibraryError) (exampleContainer (1, 1, 1) 1)
     = ([OnProgressUpdate 0, WritePreviewImage, OnPreviewSaved, OnProgressUpdate 75,
         OnProgressUpdate 75], Inl DngException)"
  by (simp add: process_def process_underexposed_def exampleContainer_def exampleSettings_def
      exampleBuffer_def exampleKernels_def removeFrame_def process_estimate_def
      createPreview_def createSrgbMatrix_settings_def
      createSrgbMatrix_asShot_def vec3_max_def Let_def process_finish_def nextFusedImage_def)

end
